(* ===== verification/Prelude.thy ===== *)
theory Prelude
  imports Main "HOL-Library.Word" "HOL-Library.Sublist"
begin

text \<open>
  Shared vocabulary of the development: the Python string operations that
  \<open>src/s3_minio.py\<close> calls (\<open>in\<close>, \<open>str.replace\<close>, \<open>str.strip\<close>,
  \<open>str.split\<close>, \<open>posixpath.dirname\<close>, \<open>str(int)\<close>), the byte type of object
  contents, and the exception values every component raises.  A Python \<open>str\<close>
  is modelled as a list of code points below 256 (an Isabelle \<open>char\<close>).
\<close>

named_theorems pystr_simps \<open>characteristic equations of the Python string model\<close>

type_synonym bytes = "8 word list"

subsection \<open>Exceptions\<close>

text \<open>
  \<open>os_error\<close> are the \<open>OSError\<close> subclasses raised by \<open>os\<close> and
  \<open>shutil\<close>; \<open>client_code\<close> the S3 error codes carried by botocore's
  \<open>ClientError\<close>; \<open>py_exc\<close> every exception value that reaches a caller.
  \<open>Value_Error msg cause\<close> is \<open>raise ValueError(msg ...) from cause\<close>: for the
  upload and delete handlers the message is \<open>msg\<close> followed by \<open>str(cause)\<close>.
\<close>

datatype os_error =
    File_Not_Found string
  | Is_A_Directory string
  | Not_A_Directory string

datatype client_code = Forbidden_403 | Not_Found_404 | No_Such_Bucket

datatype sdk_exc =
    Endpoint_Connection_Error string
  | Client_Error client_code string
  | S3_Upload_Failed client_code

datatype py_exc =
    OS_Error os_error
  | Sdk_Error sdk_exc
  | Value_Error string py_exc
  | Import_Error string py_exc
  | Module_Not_Found string
  | Type_Error string
  | Codec_Error string

subsection \<open>The \<open>in\<close> operator on strings\<close>

fun py_contains :: "string \<Rightarrow> string \<Rightarrow> bool" where
  "py_contains p [] = (p = [])"
| "py_contains p (c # cs) = (prefix p (c # cs) \<or> py_contains p cs)"

subsection \<open>\<open>str.replace(old, new)\<close>\<close>

text \<open>
  CPython scans left to right and replaces non-overlapping occurrences; an
  empty \<open>old\<close> inserts \<open>new\<close> before every character and at the end.
\<close>

function py_replace_ne :: "string \<Rightarrow> string \<Rightarrow> string \<Rightarrow> string" where
  "py_replace_ne old new [] = []"
| "py_replace_ne old new (c # cs) =
     (if old \<noteq> [] \<and> prefix old (c # cs)
      then new @ py_replace_ne old new (drop (length old) (c # cs))
      else c # py_replace_ne old new cs)"
  by pat_completeness auto
termination
  by (relation "measure (\<lambda>(_, _, s). length s)") auto

definition py_replace :: "string \<Rightarrow> string \<Rightarrow> string \<Rightarrow> string" where
  "py_replace old new s =
     (if old = [] then new @ concat (map (\<lambda>c. c # new) s) else py_replace_ne old new s)"

subsection \<open>\<open>str.strip()\<close>\<close>

text \<open>\<open>str.isspace\<close> on the code points 0 to 255.\<close>

definition py_isspace :: "char \<Rightarrow> bool" where
  "py_isspace c =
     (let n = of_char c :: nat in (9 \<le> n \<and> n \<le> 13) \<or> (28 \<le> n \<and> n \<le> 32) \<or> n = 133 \<or> n = 160)"

definition py_strip :: "string \<Rightarrow> string" where
  "py_strip s = rev (dropWhile py_isspace (rev (dropWhile py_isspace s)))"

definition py_rstrip_ws :: "string \<Rightarrow> string" where
  "py_rstrip_ws s = rev (dropWhile py_isspace (rev s))"

subsection \<open>\<open>str.split(sep)\<close> for a one-character separator, and \<open>sep.join\<close>\<close>

fun py_split_aux :: "char \<Rightarrow> string \<Rightarrow> string \<Rightarrow> string list" where
  "py_split_aux c acc [] = [rev acc]"
| "py_split_aux c acc (x # xs) =
     (if x = c then rev acc # py_split_aux c [] xs else py_split_aux c (x # acc) xs)"

definition py_split :: "char \<Rightarrow> string \<Rightarrow> string list" where
  "py_split c s = py_split_aux c [] s"

fun py_join :: "string \<Rightarrow> string list \<Rightarrow> string" where
  "py_join sep [] = []"
| "py_join sep [x] = x"
| "py_join sep (x # y # ys) = x @ sep @ py_join sep (y # ys)"

subsection \<open>\<open>posixpath.dirname\<close>\<close>

text \<open>
  \<^verbatim>\<open>i = p.rfind('/') + 1; head = p[:i]
  if head and head != '/' * len(head): head = head.rstrip('/')\<close>
\<close>

definition py_rstrip :: "char \<Rightarrow> string \<Rightarrow> string" where
  "py_rstrip c s = rev (dropWhile (\<lambda>x. x = c) (rev s))"

definition posix_dirname :: "string \<Rightarrow> string" where
  "posix_dirname p =
     (let head = rev (dropWhile (\<lambda>x. x \<noteq> CHR ''/'') (rev p))
      in if list_ex (\<lambda>x. x \<noteq> CHR ''/'') head then py_rstrip CHR ''/'' head else head)"

subsection \<open>\<open>str(n)\<close> for a natural number, and zero padding\<close>

definition digit_char :: "nat \<Rightarrow> char" where
  "digit_char d = ''0123456789'' ! d"

fun nat_str :: "nat \<Rightarrow> string" where
  "nat_str n = (if n < 10 then [digit_char n] else nat_str (n div 10) @ [digit_char (n mod 10)])"

declare nat_str.simps [simp del]

definition zpad :: "nat \<Rightarrow> nat \<Rightarrow> string" where
  "zpad w n = replicate (w - length (nat_str n)) CHR ''0'' @ nat_str n"

definition py_bool_str :: "bool \<Rightarrow> string" where
  "py_bool_str b = (if b then ''True'' else ''False'')"

text \<open>Reading a decimal numeral back (used to state the round trip of \<open>nat_str\<close>).\<close>

definition ascii_digit :: "char \<Rightarrow> bool" where
  "ascii_digit c \<longleftrightarrow> 48 \<le> (of_char c :: nat) \<and> (of_char c :: nat) \<le> 57"

definition digits_value :: "string \<Rightarrow> nat" where
  "digits_value s = foldl (\<lambda>a c. 10 * a + (of_char c - 48)) 0 s"

subsection \<open>Lemmas on the string model\<close>

lemma py_contains_sublist [pystr_simps]: "py_contains p s = sublist p s"
  by (induction s) (auto simp: sublist_Cons_right)

lemma py_rstrip_append:
  "py_rstrip c (xs @ ys) = (if list_ex (\<lambda>x. x \<noteq> c) ys then xs @ py_rstrip c ys else py_rstrip c xs)"
proof -
  have "dropWhile (\<lambda>x. x = c) (rev ys @ rev xs) =
        (if list_ex (\<lambda>x. x \<noteq> c) ys then dropWhile (\<lambda>x. x = c) (rev ys) @ rev xs
         else dropWhile (\<lambda>x. x = c) (rev xs))"
    by (induction ys rule: rev_induct) auto
  then show ?thesis by (simp add: py_rstrip_def)
qed

lemma py_rstrip_last:
  assumes "xs \<noteq> []" and "last xs \<noteq> c"
  shows "py_rstrip c xs = xs"
  using assms by (induction xs rule: rev_induct) (auto simp: py_rstrip_def)

lemma py_rstrip_props:
  assumes "list_ex (\<lambda>x. x \<noteq> c) xs"
  shows "py_rstrip c xs \<noteq> [] \<and> last (py_rstrip c xs) \<noteq> c"
  using assms by (induction xs rule: rev_induct) (auto simp: py_rstrip_def)

lemma posix_dirname_no_slash [pystr_simps]:
  assumes "CHR ''/'' \<notin> set p"
  shows "posix_dirname p = []"
proof -
  have "dropWhile (\<lambda>x. x \<noteq> CHR ''/'') (rev p) = []"
    using assms by (auto simp: dropWhile_eq_Nil_conv)
  then show ?thesis by (simp add: posix_dirname_def del: dropWhile_eq_Nil_conv)
qed

lemma posix_dirname_split [pystr_simps]:
  assumes "CHR ''/'' \<notin> set b"
  shows "posix_dirname (a @ CHR ''/'' # b) =
           (if list_ex (\<lambda>x. x \<noteq> CHR ''/'') a then py_rstrip CHR ''/'' a else a @ ''/'')"
proof -
  have "dropWhile (\<lambda>x. x \<noteq> CHR ''/'') (rev b @ CHR ''/'' # rev a) = CHR ''/'' # rev a"
    using assms by (induction b rule: rev_induct) auto
  then show ?thesis
    by (simp add: posix_dirname_def py_rstrip_append)
qed

lemma py_split_aux_ne: "py_split_aux c acc s \<noteq> []"
  by (induction s arbitrary: acc) auto

lemma takeWhile_rev_all:
  assumes "c \<notin> set s"
  shows "rev (takeWhile (\<lambda>x. x \<noteq> c) (rev s)) = s"
proof -
  have "\<forall>x\<in>set (rev s). x \<noteq> c" using assms by auto
  then have "takeWhile (\<lambda>x. x \<noteq> c) (rev s) = rev s"
    by (simp only: takeWhile_eq_all_conv)
  then show ?thesis by (simp del: takeWhile_eq_all_conv)
qed

lemma takeWhile_rev_snoc:
  assumes "c \<notin> set s"
  shows "rev (takeWhile (\<lambda>x. x \<noteq> c) (rev s @ [c])) = s"
proof -
  have "\<forall>x\<in>set (rev s). x \<noteq> c" using assms by auto
  then have "takeWhile (\<lambda>x. x \<noteq> c) (rev s @ [c]) = rev s"
    using takeWhile_append2 [of "rev s" "\<lambda>x. x \<noteq> c" "[c]"] by auto
  then show ?thesis by simp
qed

lemma py_split_aux_last:
  "last (py_split_aux c acc s) =
     (if c \<in> set s then rev (takeWhile (\<lambda>x. x \<noteq> c) (rev s)) else rev acc @ s)"
proof (induction s arbitrary: acc)
  case Nil
  then show ?case by simp
next
  case (Cons x xs)
  show ?case
  proof (cases "c \<in> set xs")
    case True
    then show ?thesis using Cons.IH py_split_aux_ne by (simp add: takeWhile_append1)
  next
    case False
    then show ?thesis using Cons.IH py_split_aux_ne by (auto simp: takeWhile_rev_snoc)
  qed
qed

lemma py_split_last [pystr_simps]:
  "last (py_split c s) = rev (takeWhile (\<lambda>x. x \<noteq> c) (rev s))"
  by (simp add: py_split_def py_split_aux_last takeWhile_rev_all del: takeWhile_eq_all_conv)

lemma of_char_digit_char: "d < 10 \<Longrightarrow> (of_char (digit_char d) :: nat) = 48 + d"
  by (auto simp: digit_char_def less_Suc_eq numeral_eq_Suc)

lemma nat_str_ne [simp]: "nat_str n \<noteq> []"
  by (subst nat_str.simps) simp

lemma nat_str_digits: "\<forall>c \<in> set (nat_str n). ascii_digit c"
proof (induction n rule: nat_str.induct)
  case (1 n)
  then show ?case
    by (subst nat_str.simps) (auto simp: ascii_digit_def of_char_digit_char)
qed

lemma zpad_digits: "\<forall>c \<in> set (zpad w n). ascii_digit c"
  using nat_str_digits by (auto simp: zpad_def ascii_digit_def)

lemma digits_value_snoc: "digits_value (s @ [c]) = 10 * digits_value s + (of_char c - 48)"
  by (simp add: digits_value_def)

lemma digits_value_nat_str: "digits_value (nat_str n) = n"
proof (induction n rule: nat_str.induct)
  case (1 n)
  show ?case
  proof (cases "n < 10")
    case True
    then show ?thesis
      by (subst nat_str.simps) (simp add: digits_value_def of_char_digit_char)
  next
    case False
    then have "digits_value (nat_str (n div 10)) = n div 10" using "1.IH" by simp
    then show ?thesis using False
      by (subst nat_str.simps) (simp add: digits_value_snoc of_char_digit_char)
  qed
qed

lemma digits_value_zeros: "digits_value (replicate k CHR ''0'' @ s) = digits_value s"
proof -
  have "foldl (\<lambda>a c. 10 * a + (of_char c - 48)) 0 (replicate k CHR ''0'') = (0::nat)"
    by (induction k) simp_all
  then show ?thesis by (simp add: digits_value_def)
qed

lemma digits_value_zpad: "digits_value (zpad w n) = n"
  by (simp add: zpad_def digits_value_zeros digits_value_nat_str)

lemma nat_str_length_4:
  assumes "1000 \<le> n" and "n \<le> 9999"
  shows "length (nat_str n) = 4"
proof -
  have a: "\<not> n < 10" "\<not> n div 10 < 10" "\<not> n div 10 div 10 < 10" "n div 10 div 10 div 10 < 10"
    using assms by auto
  show ?thesis
    by (subst nat_str.simps, simp only: a if_False,
        subst nat_str.simps, simp only: a if_False,
        subst nat_str.simps, simp only: a if_False,
        subst nat_str.simps, simp only: a if_True) simp
qed

lemma py_join_Cons: "ys \<noteq> [] \<Longrightarrow> py_join sep (x # ys) = x @ sep @ py_join sep ys"
  by (cases ys) simp_all

lemma py_split_aux_free: "c \<notin> set xs \<Longrightarrow> py_split_aux c acc xs = [rev acc @ xs]"
  by (induction xs arbitrary: acc) auto

lemma py_split_aux_sep:
  "c \<notin> set xs \<Longrightarrow> py_split_aux c acc (xs @ c # ys) = (rev acc @ xs) # py_split_aux c [] ys"
  by (induction xs arbitrary: acc) auto

lemma py_join_split_aux: "py_join [c] (py_split_aux c acc s) = rev acc @ s"
proof (induction s arbitrary: acc)
  case Nil
  then show ?case by simp
next
  case (Cons x xs)
  then show ?case by (auto simp: py_join_Cons py_split_aux_ne)
qed

lemma py_join_split: "py_join [c] (py_split c s) = s"
  by (simp add: py_split_def py_join_split_aux)

lemma py_split_join:
  assumes "xs \<noteq> []" and "\<forall>x \<in> set xs. c \<notin> set x"
  shows "py_split c (py_join [c] xs) = xs"
  using assms
proof (induction xs)
  case (Cons x xs)
  show ?case
  proof (cases "xs = []")
    case True
    then show ?thesis using Cons.prems by (simp add: py_split_def py_split_aux_free)
  next
    case False
    then have "py_split c (py_join [c] xs) = xs" using Cons by simp
    then show ?thesis using False Cons.prems
      by (simp add: py_join_Cons py_split_def py_split_aux_sep)
  qed
qed simp

lemma py_replace_single:
  "py_replace [a] [b] s = map (\<lambda>c. if c = a then b else c) s"
proof -
  have "py_replace_ne [a] [b] s = map (\<lambda>c. if c = a then b else c) s"
    by (induction s) auto
  then show ?thesis by (simp add: py_replace_def)
qed

lemma py_strip_append:
  assumes "xs \<noteq> []" and "\<not> py_isspace (hd xs)" and "\<not> py_isspace (last xs)"
  shows "py_strip (xs @ ys) = xs @ py_rstrip_ws ys"
proof -
  have l: "dropWhile py_isspace (xs @ ys) = xs @ ys"
    using assms by (cases xs) auto
  have x: "dropWhile py_isspace (rev xs) = rev xs"
    using assms by (cases xs rule: rev_cases) auto
  have r: "dropWhile py_isspace (rev ys @ rev xs) = dropWhile py_isspace (rev ys) @ rev xs"
    using x by (induction ys rule: rev_induct) auto
  show ?thesis by (simp add: py_strip_def py_rstrip_ws_def l r)
qed

lemma last_py_split_append:
  assumes "c \<notin> set v"
  shows "last (py_split c (a @ c # v)) = v"
proof -
  have "\<forall>x\<in>set (rev v). x \<noteq> c" using assms by auto
  then have "takeWhile (\<lambda>x. x \<noteq> c) (rev v @ c # rev a) = rev v"
    using takeWhile_append2 [of "rev v" "\<lambda>x. x \<noteq> c" "c # rev a"] by auto
  then show ?thesis by (simp add: py_split_last)
qed

end
