(* ===== verification/Environment.thy ===== *)
theory Environment
  imports Prelude
begin

text \<open>
  The outside world \<open>src/s3_minio.py\<close> acts on, modelled from the behaviour of
  the libraries it calls: the local file system (\<open>os.path.exists\<close>,
  \<open>os.remove\<close>, \<open>os.listdir\<close>, \<open>shutil.rmtree\<close>), standard output
  (\<open>print\<close>), a wall clock, and one S3-compatible backend reached through a
  boto3 client (\<open>upload_file\<close>, \<open>delete_object\<close>, \<open>head_object\<close>,
  \<open>generate_presigned_url\<close>).  None of this is code of the repository; it is
  the interface the gateway's handlers are verified against.
\<close>

subsection \<open>Local file system\<close>

text \<open>
  A file system is an association list from normalised relative paths to nodes.
  The well-formedness invariant \<open>fs_wf\<close>: paths are distinct and normal, and the
  parent of every entry is a directory of the file system (or the working
  directory, \<open>''''\<close>).
\<close>

datatype node = File bytes | Directory

type_synonym fs = "(string \<times> node) list"

definition norm_path :: "string \<Rightarrow> bool" where
  "norm_path p =
     list_all (\<lambda>seg. seg \<noteq> [] \<and> seg \<noteq> ''.'' \<and> seg \<noteq> ''..'') (py_split CHR ''/'' p)"

definition fs_wf :: "fs \<Rightarrow> bool" where
  "fs_wf fs \<longleftrightarrow> distinct (map fst fs) \<and>
     list_all (\<lambda>(p, _). norm_path p \<and>
       (posix_dirname p = [] \<or> map_of fs (posix_dirname p) = Some Directory)) fs"

definition fs_exists :: "fs \<Rightarrow> string \<Rightarrow> bool" where
  "fs_exists fs p = (map_of fs p \<noteq> None)"

definition fs_drop :: "string \<Rightarrow> fs \<Rightarrow> fs" where
  "fs_drop p fs = filter (\<lambda>(q, _). q \<noteq> p) fs"

text \<open>\<open>os.remove(p)\<close>: unlinks a plain file.\<close>

definition fs_remove :: "fs \<Rightarrow> string \<Rightarrow> os_error + fs" where
  "fs_remove fs p =
     (case map_of fs p of
        None \<Rightarrow> Inl (File_Not_Found p)
      | Some Directory \<Rightarrow> Inl (Is_A_Directory p)
      | Some (File _) \<Rightarrow> Inr (fs_drop p fs))"

text \<open>\<open>os.listdir(d)\<close>: the names of the entries whose parent is \<open>d\<close>.\<close>

definition fs_listdir :: "fs \<Rightarrow> string \<Rightarrow> os_error + string list" where
  "fs_listdir fs d =
     (case map_of fs d of
        None \<Rightarrow> Inl (File_Not_Found d)
      | Some (File _) \<Rightarrow> Inl (Not_A_Directory d)
      | Some Directory \<Rightarrow>
          Inr [drop (Suc (length d)) p. (p, _) \<leftarrow> fs, p \<noteq> d \<and> posix_dirname p = d])"

text \<open>\<open>shutil.rmtree(d)\<close>: removes \<open>d\<close> and everything below it.\<close>

definition fs_rmtree :: "fs \<Rightarrow> string \<Rightarrow> os_error + fs" where
  "fs_rmtree fs d =
     (case map_of fs d of
        None \<Rightarrow> Inl (File_Not_Found d)
      | Some (File _) \<Rightarrow> Inl (Not_A_Directory d)
      | Some Directory \<Rightarrow>
          Inr (filter (\<lambda>(p, _). p \<noteq> d \<and> \<not> prefix (d @ ''/'') p) fs))"

text \<open>\<open>open(p, "wb").write(data)\<close>: the parent must be a directory (or the
  working directory) and \<open>p\<close> must not be a directory; an existing file is
  replaced.  The model names entries by normal path only, so a write to any other
  spelling of a path is refused.\<close>

definition fs_write :: "fs \<Rightarrow> string \<Rightarrow> bytes \<Rightarrow> os_error + fs" where
  "fs_write fs p data =
     (if \<not> norm_path p then Inl (File_Not_Found p)
      else if posix_dirname p \<noteq> [] \<and> map_of fs (posix_dirname p) \<noteq> Some Directory
      then (case map_of fs (posix_dirname p) of
              Some (File _) \<Rightarrow> Inl (Not_A_Directory p)
            | _ \<Rightarrow> Inl (File_Not_Found p))
      else case map_of fs p of
             Some Directory \<Rightarrow> Inl (Is_A_Directory p)
           | _ \<Rightarrow> Inr ((p, File data) # fs_drop p fs))"

subsection \<open>The S3 backend and the boto3 client\<close>

record backend =
  be_endpoint :: string
  be_online :: bool
  be_credentials :: "(string \<times> string) list"
  be_buckets :: "string \<Rightarrow> (string \<Rightarrow> bytes option) option"

record s3_client =
  cl_endpoint :: string
  cl_access_key :: string
  cl_secret :: string

text \<open>
  A presigned URL as botocore builds it: method, endpoint, bucket, key, the
  access key and the signature (made with the client's secret), the signing time
  and the validity in seconds.
\<close>

record presigned_url =
  pu_method :: string
  pu_endpoint :: string
  pu_bucket :: string
  pu_key :: string
  pu_access_key :: string
  pu_signature :: string
  pu_issued :: nat
  pu_expires :: nat

record world =
  w_fs :: fs
  w_backend :: backend
  w_clock :: nat
  w_stdout :: "string list"

text \<open>\<open>print(*args)\<close>: one line, the arguments joined by a space.\<close>

definition py_print :: "string list \<Rightarrow> world \<Rightarrow> world" where
  "py_print args w = w\<lparr>w_stdout := w_stdout w @ [py_join '' '' args]\<rparr>"

definition sdk_reachable :: "s3_client \<Rightarrow> backend \<Rightarrow> bool" where
  "sdk_reachable cl be \<longleftrightarrow> be_online be \<and> cl_endpoint cl = be_endpoint be"

definition sdk_authorized :: "s3_client \<Rightarrow> backend \<Rightarrow> bool" where
  "sdk_authorized cl be \<longleftrightarrow> (cl_access_key cl, cl_secret cl) \<in> set (be_credentials be)"

definition put_object :: "string \<Rightarrow> string \<Rightarrow> bytes \<Rightarrow> backend \<Rightarrow> backend" where
  "put_object bucket key data be =
     (case be_buckets be bucket of
        None \<Rightarrow> be
      | Some objs \<Rightarrow> be\<lparr>be_buckets := (be_buckets be)(bucket \<mapsto> objs(key \<mapsto> data))\<rparr>)"

definition remove_object :: "string \<Rightarrow> string \<Rightarrow> backend \<Rightarrow> backend" where
  "remove_object bucket key be =
     (case be_buckets be bucket of
        None \<Rightarrow> be
      | Some objs \<Rightarrow> be\<lparr>be_buckets := (be_buckets be)(bucket \<mapsto> objs(key := None))\<rparr>)"

definition object_of :: "backend \<Rightarrow> string \<Rightarrow> string \<Rightarrow> bytes option" where
  "object_of be bucket key =
     (case be_buckets be bucket of None \<Rightarrow> None | Some objs \<Rightarrow> objs key)"

text \<open>
  \<open>client.upload_file(filename, bucket, key)\<close>: the local file is opened first
  (a missing file raises \<open>FileNotFoundError\<close>); a failed request surfaces as
  \<open>S3UploadFailedError\<close>, an unreachable endpoint as
  \<open>EndpointConnectionError\<close>.
\<close>

definition sdk_upload_file :: "s3_client \<Rightarrow> string \<Rightarrow> string \<Rightarrow> string \<Rightarrow> world \<Rightarrow> py_exc + world" where
  "sdk_upload_file cl filename bucket key w =
     (case map_of (w_fs w) filename of
        None \<Rightarrow> Inl (OS_Error (File_Not_Found filename))
      | Some Directory \<Rightarrow> Inl (OS_Error (Is_A_Directory filename))
      | Some (File data) \<Rightarrow>
          if \<not> sdk_reachable cl (w_backend w)
          then Inl (Sdk_Error (Endpoint_Connection_Error (cl_endpoint cl)))
          else if \<not> sdk_authorized cl (w_backend w)
          then Inl (Sdk_Error (S3_Upload_Failed Forbidden_403))
          else if be_buckets (w_backend w) bucket = None
          then Inl (Sdk_Error (S3_Upload_Failed No_Such_Bucket))
          else Inr (w\<lparr>w_backend := put_object bucket key data (w_backend w)\<rparr>))"

text \<open>\<open>client.delete_object(Bucket, Key)\<close>: S3 deletes are idempotent.\<close>

definition sdk_delete_object :: "s3_client \<Rightarrow> string \<Rightarrow> string \<Rightarrow> world \<Rightarrow> py_exc + world" where
  "sdk_delete_object cl bucket key w =
     (if \<not> sdk_reachable cl (w_backend w)
      then Inl (Sdk_Error (Endpoint_Connection_Error (cl_endpoint cl)))
      else if \<not> sdk_authorized cl (w_backend w)
      then Inl (Sdk_Error (Client_Error Forbidden_403 ''DeleteObject''))
      else if be_buckets (w_backend w) bucket = None
      then Inl (Sdk_Error (Client_Error No_Such_Bucket ''DeleteObject''))
      else Inr (w\<lparr>w_backend := remove_object bucket key (w_backend w)\<rparr>))"

text \<open>\<open>client.head_object(Bucket, Key)\<close>: a HEAD response has no body, so a
  missing bucket or key is a bare 404.\<close>

definition sdk_head_object :: "s3_client \<Rightarrow> string \<Rightarrow> string \<Rightarrow> world \<Rightarrow> py_exc + unit" where
  "sdk_head_object cl bucket key w =
     (if \<not> sdk_reachable cl (w_backend w)
      then Inl (Sdk_Error (Endpoint_Connection_Error (cl_endpoint cl)))
      else if \<not> sdk_authorized cl (w_backend w)
      then Inl (Sdk_Error (Client_Error Forbidden_403 ''HeadObject''))
      else if object_of (w_backend w) bucket key = None
      then Inl (Sdk_Error (Client_Error Not_Found_404 ''HeadObject''))
      else Inr ())"

text \<open>\<open>client.generate_presigned_url\<close> signs locally and sends no request.\<close>

definition sdk_generate_presigned_url ::
  "s3_client \<Rightarrow> string \<Rightarrow> string \<Rightarrow> string \<Rightarrow> nat \<Rightarrow> world \<Rightarrow> presigned_url" where
  "sdk_generate_presigned_url cl client_method bucket key expires w =
     \<lparr>pu_method = client_method, pu_endpoint = cl_endpoint cl, pu_bucket = bucket,
      pu_key = key, pu_access_key = cl_access_key cl, pu_signature = cl_secret cl,
      pu_issued = w_clock w, pu_expires = expires\<rparr>"

text \<open>A GET on a presigned URL at time \<open>now\<close>, as the backend serves it.\<close>

definition presigned_get :: "backend \<Rightarrow> nat \<Rightarrow> presigned_url \<Rightarrow> bytes option" where
  "presigned_get be now u =
     (if be_online be \<and> pu_endpoint u = be_endpoint be \<and> pu_method u = ''get_object''
         \<and> now < pu_issued u + pu_expires u
         \<and> (pu_access_key u, pu_signature u) \<in> set (be_credentials be)
      then object_of be (pu_bucket u) (pu_key u) else None)"

subsection \<open>Lemmas on the file system\<close>

lemma map_of_filter_key:
  "map_of (filter (\<lambda>(p, v). Q p) xs) k = (if Q k then map_of xs k else None)"
  by (induction xs) auto

lemma norm_path_Nil: "\<not> norm_path []"
  by (simp add: norm_path_def py_split_def)

lemma norm_path_last:
  assumes "norm_path p"
  shows "p \<noteq> [] \<and> last p \<noteq> CHR ''/''"
proof
  show ne: "p \<noteq> []" using assms norm_path_Nil by auto
  have "last (py_split CHR ''/'' p) \<in> set (py_split CHR ''/'' p)"
    by (simp add: py_split_def py_split_aux_ne)
  then have "rev (takeWhile (\<lambda>x. x \<noteq> CHR ''/'') (rev p)) \<noteq> []"
    using assms by (auto simp: norm_path_def list_all_iff py_split_last)
  then show "last p \<noteq> CHR ''/''"
    using ne by (cases p rule: rev_cases) auto
qed

lemma posix_dirname_below:
  assumes q: "prefix (d @ ''/'') q" and d: "d \<noteq> []" "last d \<noteq> CHR ''/''"
  shows "posix_dirname q = d
         \<or> (prefix (d @ ''/'') (posix_dirname q) \<and> length (posix_dirname q) < length q)"
proof -
  obtain r where qr: "q = d @ CHR ''/'' # r" using q by (auto simp: prefix_def)
  then have "CHR ''/'' \<in> set q" by simp
  then obtain a b where qab: "q = a @ CHR ''/'' # b" and b: "CHR ''/'' \<notin> set b"
    using split_list_last by metis
  have dne: "list_ex (\<lambda>x. x \<noteq> CHR ''/'') d"
    using d by (cases d rule: rev_cases) auto
  have dd: "py_rstrip CHR ''/'' d = d" using d by (rule py_rstrip_last)
  have "a = d \<or> (\<exists>m. a = d @ CHR ''/'' # m)"
  proof -
    from qr qab have "a @ CHR ''/'' # b = d @ CHR ''/'' # r" by simp
    then obtain us where
      "a = d @ us \<and> us @ CHR ''/'' # b = CHR ''/'' # r \<or> a @ us = d \<and> CHR ''/'' # b = us @ CHR ''/'' # r"
      by (auto simp: append_eq_append_conv2)
    then show ?thesis
    proof
      assume "a = d @ us \<and> us @ CHR ''/'' # b = CHR ''/'' # r"
      then show ?thesis by (cases us) auto
    next
      assume "a @ us = d \<and> CHR ''/'' # b = us @ CHR ''/'' # r"
      with b show ?thesis by (cases us) auto
    qed
  qed
  then show ?thesis
  proof
    assume "a = d"
    then show ?thesis using qab b dne dd by (simp add: posix_dirname_split)
  next
    assume "\<exists>m. a = d @ CHR ''/'' # m"
    then obtain m where am: "a = d @ CHR ''/'' # m" by blast
    have len: "length (py_rstrip CHR ''/'' m) \<le> length m"
      using length_dropWhile_le [of "\<lambda>x. x = CHR ''/''" "rev m"] by (simp add: py_rstrip_def)
    have ae: "list_ex (\<lambda>x. x \<noteq> CHR ''/'') a" using am dne by auto
    have "posix_dirname q = py_rstrip CHR ''/'' a"
      by (simp only: qab posix_dirname_split [OF b] ae if_True)
    also have "\<dots> = py_rstrip CHR ''/'' (d @ ''/'' @ m)"
      using am by simp
    also have "\<dots> = (if list_ex (\<lambda>x. x \<noteq> CHR ''/'') m then d @ ''/'' @ py_rstrip CHR ''/'' m else d)"
      using py_rstrip_append [of "CHR ''/''" "d @ ''/''" m] py_rstrip_append [of "CHR ''/''" d "''/''"] dd
      by simp
    finally show ?thesis using len qab am by auto
  qed
qed

lemma fs_wf_entry:
  assumes "fs_wf fs" and "map_of fs p = Some n"
  shows "norm_path p \<and> (posix_dirname p = [] \<or> map_of fs (posix_dirname p) = Some Directory)"
proof -
  from assms(2) have "(p, n) \<in> set fs" by (rule map_of_SomeD)
  with assms(1) show ?thesis by (auto simp: fs_wf_def list_all_iff)
qed

lemma fs_wf_no_root:
  assumes "fs_wf fs"
  shows "map_of fs [] = None"
  using fs_wf_entry [OF assms] norm_path_Nil by (cases "map_of fs []") auto

text \<open>Below a directory that has an entry at any depth there is an entry one level down.\<close>

lemma fs_wf_child:
  assumes wf: "fs_wf fs" and d: "d \<noteq> []" "last d \<noteq> CHR ''/''"
  shows "map_of fs q \<noteq> None \<Longrightarrow> prefix (d @ ''/'') q \<Longrightarrow>
           \<exists>p. map_of fs p \<noteq> None \<and> p \<noteq> d \<and> posix_dirname p = d"
proof (induction "length q" arbitrary: q rule: less_induct)
  case less
  show ?case
    using posix_dirname_below [OF less.prems(2) d]
  proof
    assume "posix_dirname q = d"
    moreover have "q \<noteq> d" using less.prems(2) by (auto simp: prefix_def)
    ultimately show ?thesis using less.prems(1) by blast
  next
    assume up: "prefix (d @ ''/'') (posix_dirname q) \<and> length (posix_dirname q) < length q"
    then have "posix_dirname q \<noteq> []" by (auto simp: prefix_def)
    then have "map_of fs (posix_dirname q) = Some Directory"
      using fs_wf_entry [OF wf] less.prems(1) by blast
    then show ?thesis using up less.hyps [of "posix_dirname q"] by simp
  qed
qed

lemma fs_listdir_Nil:
  "fs_listdir fs d = Inr [] \<longleftrightarrow>
     map_of fs d = Some Directory \<and> (\<forall>(p, n) \<in> set fs. p = d \<or> posix_dirname p \<noteq> d)"
  by (auto simp: fs_listdir_def split: option.splits node.splits)

lemma fs_rmtree_empty:
  assumes wf: "fs_wf fs" and d: "d \<noteq> []" "last d \<noteq> CHR ''/''"
    and empty: "fs_listdir fs d = Inr []"
  shows "fs_rmtree fs d = Inr (fs_drop d fs)"
proof -
  have dir: "map_of fs d = Some Directory"
    and leaf: "\<forall>(p, n) \<in> set fs. p = d \<or> posix_dirname p \<noteq> d"
    using empty by (auto simp: fs_listdir_Nil)
  have "\<not> prefix (d @ ''/'') p" if "(p, n) \<in> set fs" for p n
  proof
    assume "prefix (d @ ''/'') p"
    moreover have "map_of fs p \<noteq> None" using that by (auto simp: weak_map_of_SomeI)
    ultimately obtain p' where "map_of fs p' \<noteq> None" "p' \<noteq> d" "posix_dirname p' = d"
      using fs_wf_child [OF wf d] by blast
    then show False using leaf by (auto dest!: map_of_SomeD)
  qed
  then have "filter (\<lambda>(p, _). p \<noteq> d \<and> \<not> prefix (d @ ''/'') p) fs = fs_drop d fs"
    unfolding fs_drop_def by (auto intro!: filter_cong)
  then show ?thesis using dir by (simp add: fs_rmtree_def)
qed

lemma map_of_fs_drop: "map_of (fs_drop p fs) q = (if q = p then None else map_of fs q)"
  by (simp add: fs_drop_def map_of_filter_key)

lemma fs_wf_drop:
  assumes wf: "fs_wf fs" and leaf: "\<forall>(p, n) \<in> set fs. p = q \<or> posix_dirname p \<noteq> q"
  shows "fs_wf (fs_drop q fs)"
proof -
  have "distinct (map fst (fs_drop q fs))"
    using wf by (simp add: fs_wf_def fs_drop_def distinct_map_filter)
  moreover have "norm_path p \<and> (posix_dirname p = [] \<or> map_of (fs_drop q fs) (posix_dirname p) = Some Directory)"
    if "(p, n) \<in> set (fs_drop q fs)" for p n
  proof -
    have pin: "(p, n) \<in> set fs" and pq: "p \<noteq> q" using that by (auto simp: fs_drop_def)
    then have "posix_dirname p \<noteq> q" using leaf by auto
    moreover have "map_of fs p = Some n"
      using pin wf by (simp add: fs_wf_def)
    ultimately show ?thesis
      using fs_wf_entry [OF wf] by (auto simp: map_of_fs_drop)
  qed
  ultimately show ?thesis by (auto simp: fs_wf_def list_all_iff)
qed

lemma fs_wf_file_leaf:
  assumes wf: "fs_wf fs" and f: "map_of fs q = Some (File x)"
  shows "\<forall>(p, n) \<in> set fs. p = q \<or> posix_dirname p \<noteq> q"
proof -
  have "p = q" if "(p, n) \<in> set fs" and "posix_dirname p = q" for p n
  proof -
    have "q \<noteq> []" using f fs_wf_no_root [OF wf] by auto
    moreover have "map_of fs p = Some n" using that(1) wf by (simp add: fs_wf_def)
    ultimately have "map_of fs q = Some Directory"
      using fs_wf_entry [OF wf] that(2) by blast
    with f show "p = q" by simp
  qed
  then show ?thesis by auto
qed

lemma fs_wf_file_parent:
  assumes wf: "fs_wf fs" and f: "map_of fs p = Some (File x)"
  shows "posix_dirname p \<noteq> p \<and> map_of fs (posix_dirname p) \<noteq> Some (File y)
         \<and> (map_of fs (posix_dirname p) \<noteq> None \<longrightarrow>
              posix_dirname p \<noteq> [] \<and> last (posix_dirname p) \<noteq> CHR ''/'')"
proof -
  have e: "posix_dirname p = [] \<or> map_of fs (posix_dirname p) = Some Directory"
    using fs_wf_entry [OF wf f] by blast
  moreover have "map_of fs [] = None" using wf by (rule fs_wf_no_root)
  moreover have "map_of fs (posix_dirname p) = Some Directory \<Longrightarrow> norm_path (posix_dirname p)"
    using fs_wf_entry [OF wf] by blast
  ultimately show ?thesis using f norm_path_last by auto
qed

lemma py_print_fields [simp]:
  "w_fs (py_print args w) = w_fs w"
  "w_backend (py_print args w) = w_backend w"
  "w_clock (py_print args w) = w_clock w"
  by (simp_all add: py_print_def)

lemma posix_dirname_shorter:
  assumes "p \<noteq> []" and "last p \<noteq> CHR ''/''"
  shows "length (posix_dirname p) < length p"
proof (cases "CHR ''/'' \<in> set p")
  case False
  then show ?thesis using assms by (simp add: posix_dirname_no_slash)
next
  case True
  then obtain a b where p: "p = a @ CHR ''/'' # b" and b: "CHR ''/'' \<notin> set b"
    using split_list_last by metis
  have "b \<noteq> []" using assms(2) p by auto
  moreover have "length (py_rstrip CHR ''/'' a) \<le> length a"
    unfolding py_rstrip_def by (metis length_dropWhile_le length_rev)
  ultimately show ?thesis using p b by (simp add: posix_dirname_split)
qed

lemma norm_path_dirname_ne:
  "norm_path p \<Longrightarrow> posix_dirname p \<noteq> p"
  using norm_path_last posix_dirname_shorter by fastforce

lemma fs_write_Inr:
  assumes wf: "fs_wf fs" and w: "fs_write fs p d = Inr fs'"
  shows "fs_wf fs' \<and> map_of fs' = (map_of fs)(p \<mapsto> File d)"
proof -
  have np: "norm_path p" and par: "posix_dirname p = [] \<or> map_of fs (posix_dirname p) = Some Directory"
    and nd: "map_of fs p \<noteq> Some Directory" and fs': "fs' = (p, File d) # fs_drop p fs"
    using w by (auto simp: fs_write_def split: if_splits option.splits node.splits)
  have dp: "posix_dirname p \<noteq> p" using np by (rule norm_path_dirname_ne)
  have leaf: "posix_dirname q \<noteq> p" if "(q, n) \<in> set fs" for q n
  proof
    assume qp: "posix_dirname q = p"
    have "map_of fs q = Some n" using that wf by (simp add: fs_wf_def)
    then have "posix_dirname q = [] \<or> map_of fs (posix_dirname q) = Some Directory"
      using fs_wf_entry [OF wf] by blast
    then show False using qp nd np norm_path_Nil by auto
  qed
  have "distinct (map fst fs')"
    using wf by (auto simp: fs' fs_wf_def fs_drop_def distinct_map_filter)
  moreover have "norm_path q \<and> (posix_dirname q = [] \<or> map_of fs' (posix_dirname q) = Some Directory)"
    if "(q, n) \<in> set fs'" for q n
  proof (cases "q = p")
    case True
    then show ?thesis using np par dp by (simp add: fs' map_of_fs_drop)
  next
    case False
    then have qin: "(q, n) \<in> set fs" using that by (auto simp: fs' fs_drop_def)
    then have "map_of fs q = Some n" using wf by (simp add: fs_wf_def)
    then show ?thesis using fs_wf_entry [OF wf] leaf [OF qin] by (auto simp: fs' map_of_fs_drop)
  qed
  ultimately have "fs_wf fs'" by (auto simp: fs_wf_def list_all_iff)
  moreover have "map_of fs' = (map_of fs)(p \<mapsto> File d)"
    by (rule ext) (simp add: fs' map_of_fs_drop)
  ultimately show ?thesis by blast
qed


lemma fs_write_ok:
  assumes "norm_path p" and "map_of fs (posix_dirname p) = Some Directory"
    and "map_of fs p \<noteq> Some Directory"
  shows "fs_write fs p d = Inr ((p, File d) # fs_drop p fs)"
  using assms by (cases "map_of fs p") (auto simp: fs_write_def split: node.splits)

end
