(* ===== verification/Gateway.thy ===== *)
theory Gateway
  imports Environment
begin

text \<open>
  The class \<open>S3Minio\<close> of \<open>src/s3_minio.py\<close>: its state (the boto3 client and
  the bucket name), the constructor and the three handlers \<open>upload\<close>,
  \<open>delete\<close> and \<open>get_url\<close>.  Each handler takes the world and returns its
  Python result (\<open>Inl\<close> an exception, \<open>Inr\<close> a value, \<open>None\<close> being Python's
  \<open>None\<close>) with the world after the call; effects done before an exception are
  kept, as in Python.
\<close>

record s3minio =
  s3 :: s3_client
  s3_bucket_name :: string

text \<open>\<open>S3Minio.__init__\<close>: prints its arguments, credentials included, and
  builds the client; no request is sent.\<close>

definition s3minio_init :: "string \<Rightarrow> string \<Rightarrow> string \<Rightarrow> string \<Rightarrow> world \<Rightarrow> s3minio \<times> world" where
  "s3minio_init endpoint_url access_key_id secret_access_key bucket_name w =
     (let w1 = py_print
                 [''Initializing S3Minio with endpoint: '' @ endpoint_url @ '', ''
                  @ ''access_key_id: '' @ access_key_id @ '', ''
                  @ ''secret_access_key: '' @ secret_access_key @ '', ''
                  @ ''bucket_name: '' @ bucket_name] w
      in (\<lparr>s3 = \<lparr>cl_endpoint = endpoint_url, cl_access_key = access_key_id,
                 cl_secret = secret_access_key\<rparr>,
           s3_bucket_name = bucket_name\<rparr>, w1))"

subsection \<open>upload\<close>

definition staging_path :: "string \<Rightarrow> string" where
  "staging_path path = ''temp/media/'' @ path"

text \<open>
  The cleanup after a successful transfer (lines 86--93): remove the staged file,
  then remove its directory when it exists and is empty, and return \<open>True\<close>.
  An \<open>OSError\<close> here is caught by the outer handler and wrapped once.
\<close>

definition upload_cleanup :: "string \<Rightarrow> world \<Rightarrow> (py_exc + bool option) \<times> world" where
  "upload_cleanup file_direct w =
     (case fs_remove (w_fs w) file_direct of
        Inl e \<Rightarrow> (Inl (Value_Error ''Upload Error: '' (OS_Error e)), w)
      | Inr fs1 \<Rightarrow>
          (let w1 = w\<lparr>w_fs := fs1\<rparr>; dir_local = posix_dirname file_direct
           in if fs_exists fs1 dir_local then
                (case fs_listdir fs1 dir_local of
                   Inl e \<Rightarrow> (Inl (Value_Error ''Upload Error: '' (OS_Error e)), w1)
                 | Inr [] \<Rightarrow>
                     (case fs_rmtree fs1 dir_local of
                        Inl e \<Rightarrow> (Inl (Value_Error ''Upload Error: '' (OS_Error e)), w1)
                      | Inr fs2 \<Rightarrow> (Inr (Some True), w1\<lparr>w_fs := fs2\<rparr>))
                 | Inr _ \<Rightarrow> (Inr (Some True), w1))
              else (Inr (Some True), w1)))"

text \<open>
  One iteration of the loop of \<open>upload\<close>: two diagnostic prints, the transfer
  (whose exception is wrapped by the inner handler and again by the outer one),
  the success print and the cleanup.
\<close>

definition upload_one :: "s3minio \<Rightarrow> string \<Rightarrow> world \<Rightarrow> (py_exc + bool option) \<times> world" where
  "upload_one self path w =
     (let file_direct = staging_path path;
          w1 = py_print [''Uploading '' @ file_direct @ '' to MinIO...''] w;
          w2 = py_print [''File '' @ file_direct @ ''\<newline>'',
                         ''exists: '' @ py_bool_str (fs_exists (w_fs w1) file_direct) @ ''\<newline>'',
                         ''Bucket: '' @ s3_bucket_name self @ ''\<newline>'',
                         ''Path: '' @ path] w1
      in case sdk_upload_file (s3 self) file_direct (s3_bucket_name self) path w2 of
           Inl exc \<Rightarrow> (Inl (Value_Error ''Upload Error: '' (Value_Error ''Upload Error: '' exc)), w2)
         | Inr w3 \<Rightarrow>
             upload_cleanup file_direct
               (py_print [''File '' @ file_direct @ '' uploaded successfully to MinIO.''] w3))"

text \<open>
  \<open>upload(*args)\<close>: the \<open>return True\<close> sits inside the \<open>for\<close> loop, so the
  first iteration ends the call and later arguments are never reached; with no
  argument the loop body never runs and the method returns \<open>None\<close>.
\<close>

fun upload :: "s3minio \<Rightarrow> string list \<Rightarrow> world \<Rightarrow> (py_exc + bool option) \<times> world" where
  "upload self [] w = (Inr None, w)"
| "upload self (path # _) w = upload_one self path w"

subsection \<open>delete\<close>

fun delete :: "s3minio \<Rightarrow> string list \<Rightarrow> world \<Rightarrow> (py_exc + bool option) \<times> world" where
  "delete self [] w = (Inr None, w)"
| "delete self (path # _) w =
     (case sdk_delete_object (s3 self) (s3_bucket_name self) path w of
        Inl exc \<Rightarrow> (Inl (Value_Error ''Delete Error: '' exc), w)
      | Inr w' \<Rightarrow> (Inr (Some True), w'))"

subsection \<open>get\_url\<close>

text \<open>
  Only botocore's \<open>ClientError\<close> is caught; any other exception (an
  unreachable endpoint) propagates unwrapped.  The call changes nothing.
\<close>

definition get_url :: "s3minio \<Rightarrow> string \<Rightarrow> world \<Rightarrow> py_exc + presigned_url option" where
  "get_url self path w =
     (let bucket_name = s3_bucket_name self
      in case sdk_head_object (s3 self) bucket_name path w of
           Inl (Sdk_Error (Client_Error _ _)) \<Rightarrow> Inr None
         | Inl exc \<Rightarrow> Inl exc
         | Inr _ \<Rightarrow>
             Inr (Some (sdk_generate_presigned_url (s3 self) ''get_object'' bucket_name path 3600 w)))"

subsection \<open>A concrete deployment used by the witnesses\<close>

definition demo_backend :: backend where
  "demo_backend = \<lparr>be_endpoint = ''http://minio:9000'', be_online = True,
     be_credentials = [(''minio'', ''minio123'')],
     be_buckets = [''media'' \<mapsto> [''Post/old.webp'' \<mapsto> [7]]]\<rparr>"

definition demo_world :: world where
  "demo_world = \<lparr>w_fs = [(''temp'', Directory), (''temp/media'', Directory),
       (''temp/media/Post'', Directory), (''temp/media/Post/a.png'', File [1, 2, 3]),
       (''temp/media/Post/b.png'', File [4, 5])],
     w_backend = demo_backend, w_clock = 1000, w_stdout = []\<rparr>"

definition demo_gateway :: s3minio where
  "demo_gateway = \<lparr>s3 = \<lparr>cl_endpoint = ''http://minio:9000'', cl_access_key = ''minio'',
       cl_secret = ''minio123''\<rparr>, s3_bucket_name = ''media''\<rparr>"

definition demo_gateway_badkey :: s3minio where
  "demo_gateway_badkey = \<lparr>s3 = \<lparr>cl_endpoint = ''http://minio:9000'', cl_access_key = ''minio'',
       cl_secret = ''wrong''\<rparr>, s3_bucket_name = ''media''\<rparr>"

definition demo_gateway_offline :: s3minio where
  "demo_gateway_offline = \<lparr>s3 = \<lparr>cl_endpoint = ''http://localhost:9000'', cl_access_key = ''minio'',
       cl_secret = ''minio123''\<rparr>, s3_bucket_name = ''media''\<rparr>"

lemmas demo_defs = demo_backend_def demo_world_def demo_gateway_def demo_gateway_badkey_def
  demo_gateway_offline_def

subsection \<open>Properties\<close>

lemma upload_cleanup_ok:
  assumes wf: "fs_wf (w_fs w)" and f: "map_of (w_fs w) p = Some (File x)"
  shows "\<exists>fs'. upload_cleanup p w = (Inr (Some True), w\<lparr>w_fs := fs'\<rparr>) \<and> fs_wf fs'
     \<and> (\<forall>q. map_of fs' q =
          (if q = p \<or> (q = posix_dirname p
                 \<and> (\<forall>(r, n) \<in> set (w_fs w). r = p \<or> r = q \<or> posix_dirname r \<noteq> q))
           then None else map_of (w_fs w) q))"
proof -
  let ?fs = "w_fs w" and ?d = "posix_dirname p"
  let ?fs1 = "fs_drop p ?fs"
  have par: "?d \<noteq> p" "map_of ?fs ?d \<noteq> Some (File y)"
    "map_of ?fs ?d \<noteq> None \<longrightarrow> ?d \<noteq> [] \<and> last ?d \<noteq> CHR ''/''" for y
    using fs_wf_file_parent [OF wf f] by auto
  have wf1: "fs_wf ?fs1" using fs_wf_drop [OF wf fs_wf_file_leaf [OF wf f]] .
  have rm: "fs_remove ?fs p = Inr ?fs1" using f by (simp add: fs_remove_def)
  have d1: "map_of ?fs1 ?d = map_of ?fs ?d" using par(1) by (simp add: map_of_fs_drop)
  show ?thesis
  proof (cases "map_of ?fs ?d")
    case None
    then show ?thesis using rm wf1 d1
      by (auto simp: upload_cleanup_def fs_exists_def map_of_fs_drop)
  next
    case (Some n)
    then have dir: "map_of ?fs ?d = Some Directory" using par(2) by (cases n) auto
    have dl: "?d \<noteq> []" "last ?d \<noteq> CHR ''/''" using par(3) dir by auto
    have leaf_iff: "(\<forall>(r, n) \<in> set ?fs1. r = ?d \<or> posix_dirname r \<noteq> ?d)
          \<longleftrightarrow> (\<forall>(r, n) \<in> set ?fs. r = p \<or> r = ?d \<or> posix_dirname r \<noteq> ?d)"
      by (auto simp: fs_drop_def)
    show ?thesis
    proof (cases "fs_listdir ?fs1 ?d = Inr []")
      case True
      then have rt: "fs_rmtree ?fs1 ?d = Inr (fs_drop ?d ?fs1)"
        using fs_rmtree_empty [OF wf1 dl] by blast
      have lf: "\<forall>(r, n) \<in> set ?fs1. r = ?d \<or> posix_dirname r \<noteq> ?d"
        using True by (simp add: fs_listdir_Nil)
      have wf2: "fs_wf (fs_drop ?d ?fs1)" using fs_wf_drop [OF wf1 lf] .
      show ?thesis using rm rt True wf2 d1 dir lf leaf_iff
        by (auto simp: upload_cleanup_def fs_exists_def map_of_fs_drop)
    next
      case False
      obtain xs where "fs_listdir ?fs1 ?d = Inr xs"
        using d1 dir by (simp add: fs_listdir_def)
      moreover have "xs \<noteq> []" using False calculation by auto
      ultimately obtain e es where ls: "fs_listdir ?fs1 ?d = Inr (e # es)"
        by (cases xs) auto
      have "\<not> (\<forall>(r, n) \<in> set ?fs1. r = ?d \<or> posix_dirname r \<noteq> ?d)"
        using False d1 dir by (simp add: fs_listdir_Nil)
      then show ?thesis using rm ls wf1 d1 dir leaf_iff
        by (auto simp: upload_cleanup_def fs_exists_def map_of_fs_drop)
    qed
  qed
qed

lemma sdk_upload_file_Inr:
  assumes "sdk_upload_file cl f b k w = Inr w'"
  shows "\<exists>data. map_of (w_fs w) f = Some (File data) \<and> sdk_reachable cl (w_backend w)
      \<and> sdk_authorized cl (w_backend w) \<and> be_buckets (w_backend w) b \<noteq> None
      \<and> w' = w\<lparr>w_backend := put_object b k data (w_backend w)\<rparr>"
proof -
  obtain n where m: "map_of (w_fs w) f = Some n"
    using assms by (cases "map_of (w_fs w) f") (auto simp: sdk_upload_file_def)
  obtain data where n: "n = File data"
    using assms m by (cases n) (auto simp: sdk_upload_file_def)
  have "sdk_reachable cl (w_backend w) \<and> sdk_authorized cl (w_backend w)
        \<and> be_buckets (w_backend w) b \<noteq> None"
    using assms m n by (auto simp: sdk_upload_file_def split: if_splits)
  then show ?thesis using assms m n by (auto simp: sdk_upload_file_def)
qed

lemma sdk_upload_file_print:
  "sdk_upload_file cl f b k (py_print args w) =
     (case sdk_upload_file cl f b k w of Inl e \<Rightarrow> Inl e | Inr w' \<Rightarrow> Inr (py_print args w'))"
  by (cases "map_of (w_fs w) f")
     (auto simp: sdk_upload_file_def py_print_def split: node.splits)

lemma upload_one_transfer_error:
  assumes "sdk_upload_file (s3 self) (staging_path k) (s3_bucket_name self) k w = Inl exc"
  shows "fst (upload_one self k w) = Inl (Value_Error ''Upload Error: '' (Value_Error ''Upload Error: '' exc))
       \<and> w_fs (snd (upload_one self k w)) = w_fs w
       \<and> w_backend (snd (upload_one self k w)) = w_backend w"
  using assms by (simp add: upload_one_def Let_def sdk_upload_file_print)

lemma upload_one_transfer:
  assumes staged: "map_of (w_fs w) (staging_path k) = Some (File data)"
    and net: "sdk_reachable (s3 self) (w_backend w)"
    and auth: "sdk_authorized (s3 self) (w_backend w)"
    and bucket: "be_buckets (w_backend w) (s3_bucket_name self) \<noteq> None"
  shows "\<exists>w'. upload_one self k w = upload_cleanup (staging_path k) w'
           \<and> w_fs w' = w_fs w
           \<and> w_backend w' = put_object (s3_bucket_name self) k data (w_backend w)"
  using assms by (auto simp: upload_one_def sdk_upload_file_def Let_def)

text \<open>C1. Uploading a staged file: when the staging copy \<open>temp/media/<key>\<close> exists, the
  endpoint is reachable, the credentials are accepted and the bucket exists, \<open>upload\<close>
  returns \<open>True\<close>, the bucket afterwards holds exactly the staged bytes under the key
  (and nothing else changes in the backend), and the staging file is gone.\<close>

theorem upload_stores_object:
  assumes wf: "fs_wf (w_fs w)"
    and staged: "map_of (w_fs w) (staging_path k) = Some (File data)"
    and net: "sdk_reachable (s3 self) (w_backend w)"
    and auth: "sdk_authorized (s3 self) (w_backend w)"
    and bucket: "be_buckets (w_backend w) (s3_bucket_name self) \<noteq> None"
  shows "fst (upload self (k # ks) w) = Inr (Some True)
       \<and> w_backend (snd (upload self (k # ks) w)) = put_object (s3_bucket_name self) k data (w_backend w)
       \<and> map_of (w_fs (snd (upload self (k # ks) w))) (staging_path k) = None"
proof -
  obtain w' where up: "upload_one self k w = upload_cleanup (staging_path k) w'"
    and fs': "w_fs w' = w_fs w"
    and be': "w_backend w' = put_object (s3_bucket_name self) k data (w_backend w)"
    using upload_one_transfer [OF staged net auth bucket] by blast
  obtain fs2 where cl: "upload_cleanup (staging_path k) w' = (Inr (Some True), w'\<lparr>w_fs := fs2\<rparr>)"
    and gone: "map_of fs2 (staging_path k) = None"
    using upload_cleanup_ok [of w' "staging_path k" data] wf staged fs' by auto
  show ?thesis using up cl gone be' by simp
qed

text \<open>C2. Uploading a key whose staging file does not exist raises \<open>ValueError\<close> wrapping,
  twice (inner and outer handler), the \<open>FileNotFoundError\<close> of the staging path, and
  leaves the bucket and the local file system unchanged.\<close>

theorem upload_missing_staged_file:
  assumes "map_of (w_fs w) (staging_path k) = None"
  shows "fst (upload self (k # ks) w) =
           Inl (Value_Error ''Upload Error: '' (Value_Error ''Upload Error: ''
                  (OS_Error (File_Not_Found (staging_path k)))))
       \<and> w_fs (snd (upload self (k # ks) w)) = w_fs w
       \<and> w_backend (snd (upload self (k # ks) w)) = w_backend w"
  using assms upload_one_transfer_error by (simp add: sdk_upload_file_def)

lemma upload_one_effect:
  assumes wf: "fs_wf (w_fs w)"
  shows "(\<exists>e. fst (upload_one self k w) = Inl e
            \<and> w_fs (snd (upload_one self k w)) = w_fs w
            \<and> w_backend (snd (upload_one self k w)) = w_backend w)
       \<or> (\<exists>data fs'. map_of (w_fs w) (staging_path k) = Some (File data)
            \<and> fst (upload_one self k w) = Inr (Some True)
            \<and> w_backend (snd (upload_one self k w)) = put_object (s3_bucket_name self) k data (w_backend w)
            \<and> w_fs (snd (upload_one self k w)) = fs' \<and> fs_wf fs'
            \<and> (\<forall>q. map_of fs' q =
                 (if q = staging_path k \<or> (q = posix_dirname (staging_path k)
                    \<and> (\<forall>(r, n) \<in> set (w_fs w). r = staging_path k \<or> r = q \<or> posix_dirname r \<noteq> q))
                  then None else map_of (w_fs w) q)))"
proof (cases "sdk_upload_file (s3 self) (staging_path k) (s3_bucket_name self) k w")
  case (Inl e)
  then show ?thesis using upload_one_transfer_error by blast
next
  case (Inr w1)
  then obtain data where st: "map_of (w_fs w) (staging_path k) = Some (File data)"
    and net: "sdk_reachable (s3 self) (w_backend w)" and auth: "sdk_authorized (s3 self) (w_backend w)"
    and bk: "be_buckets (w_backend w) (s3_bucket_name self) \<noteq> None"
    using sdk_upload_file_Inr by blast
  obtain w' where up: "upload_one self k w = upload_cleanup (staging_path k) w'"
    and fs': "w_fs w' = w_fs w"
    and be': "w_backend w' = put_object (s3_bucket_name self) k data (w_backend w)"
    using upload_one_transfer [OF st net auth bk] by blast
  have wf': "fs_wf (w_fs w')" and st': "map_of (w_fs w') (staging_path k) = Some (File data)"
    using wf st fs' by simp_all
  from upload_cleanup_ok [OF wf' st'] obtain fs2
    where cl: "upload_cleanup (staging_path k) w' = (Inr (Some True), w'\<lparr>w_fs := fs2\<rparr>)"
      and wf2: "fs_wf fs2"
      and mp: "\<forall>q. map_of fs2 q =
          (if q = staging_path k \<or> (q = posix_dirname (staging_path k)
                 \<and> (\<forall>(r, n) \<in> set (w_fs w'). r = staging_path k \<or> r = q \<or> posix_dirname r \<noteq> q))
           then None else map_of (w_fs w') q)"
    by blast
  show ?thesis
    using cl wf2 mp up be' st fs' by (intro disjI2 exI [of _ data] exI [of _ fs2]) simp
qed

lemma upload_cleanup_single_wrap:
  "fst (upload_cleanup p w) \<noteq> Inl (Value_Error m (Value_Error m' exc))"
  by (auto simp: upload_cleanup_def Let_def split: sum.splits list.splits)

text \<open>C7. A failed transfer changes nothing: when \<open>upload\<close> raises the doubly wrapped
  \<open>ValueError\<close> (an exception of \<open>upload_file\<close>, caught by the inner handler at line
  84 and again by the outer one at line 96), the bucket and the local file system are as
  before the call, so the staging file is still there for a retry.  An exception of the
  cleanup (lines 86--91) is wrapped once and is not covered: it is raised after the object
  is stored.\<close>

theorem upload_transfer_failure_has_no_effect:
  assumes "fst (upload self ks w) = Inl (Value_Error ''Upload Error: '' (Value_Error ''Upload Error: '' exc))"
  shows "w_fs (snd (upload self ks w)) = w_fs w \<and> w_backend (snd (upload self ks w)) = w_backend w"
proof (cases ks)
  case Nil
  then show ?thesis by simp
next
  case (Cons k ks')
  show ?thesis
  proof (cases "sdk_upload_file (s3 self) (staging_path k) (s3_bucket_name self) k w")
    case (Inl e)
    then show ?thesis using Cons upload_one_transfer_error by simp
  next
    case (Inr w1)
    then obtain d where "map_of (w_fs w) (staging_path k) = Some (File d)"
      and "sdk_reachable (s3 self) (w_backend w)" and "sdk_authorized (s3 self) (w_backend w)"
      and "be_buckets (w_backend w) (s3_bucket_name self) \<noteq> None"
      using sdk_upload_file_Inr by blast
    then obtain w' where "upload_one self k w = upload_cleanup (staging_path k) w'"
      using upload_one_transfer by blast
    then show ?thesis using assms Cons upload_cleanup_single_wrap by simp
  qed
qed

text \<open>C3. \<open>upload\<close> returns inside its loop: for \<open>upload(k1, k2, ...)\<close> the staging file
  of any later key \<open>k2 \<noteq> k1\<close> is left in place and its object in the bucket is untouched,
  whatever the outcome for \<open>k1\<close>.\<close>

theorem upload_ignores_later_keys:
  assumes wf: "fs_wf (w_fs w)" and k2: "k2 \<noteq> k1"
    and st2: "map_of (w_fs w) (staging_path k2) = Some (File x2)"
  shows "map_of (w_fs (snd (upload self (k1 # k2 # ks) w))) (staging_path k2) = Some (File x2)
       \<and> object_of (w_backend (snd (upload self (k1 # k2 # ks) w))) (s3_bucket_name self) k2
           = object_of (w_backend w) (s3_bucket_name self) k2"
  using upload_one_effect [OF wf, of self k1]
proof
  assume "\<exists>e. fst (upload_one self k1 w) = Inl e \<and> w_fs (snd (upload_one self k1 w)) = w_fs w
            \<and> w_backend (snd (upload_one self k1 w)) = w_backend w"
  then show ?thesis using st2 by auto
next
  assume "\<exists>data fs'. map_of (w_fs w) (staging_path k1) = Some (File data)
            \<and> fst (upload_one self k1 w) = Inr (Some True)
            \<and> w_backend (snd (upload_one self k1 w)) = put_object (s3_bucket_name self) k1 data (w_backend w)
            \<and> w_fs (snd (upload_one self k1 w)) = fs' \<and> fs_wf fs'
            \<and> (\<forall>q. map_of fs' q =
                 (if q = staging_path k1 \<or> (q = posix_dirname (staging_path k1)
                    \<and> (\<forall>(r, n) \<in> set (w_fs w). r = staging_path k1 \<or> r = q \<or> posix_dirname r \<noteq> q))
                  then None else map_of (w_fs w) q))"
  then obtain data fs' where st1: "map_of (w_fs w) (staging_path k1) = Some (File data)"
    and be: "w_backend (snd (upload_one self k1 w)) = put_object (s3_bucket_name self) k1 data (w_backend w)"
    and fs: "w_fs (snd (upload_one self k1 w)) = fs'"
    and mp: "map_of fs' (staging_path k2) =
                 (if staging_path k2 = staging_path k1 \<or> (staging_path k2 = posix_dirname (staging_path k1)
                    \<and> (\<forall>(r, n) \<in> set (w_fs w). r = staging_path k1 \<or> r = staging_path k2
                           \<or> posix_dirname r \<noteq> staging_path k2))
                  then None else map_of (w_fs w) (staging_path k2))"
    by blast
  have "staging_path k2 \<noteq> staging_path k1" using k2 by (simp add: staging_path_def)
  moreover have "staging_path k2 \<noteq> posix_dirname (staging_path k1)"
    using fs_wf_file_parent [OF wf st1, of x2] st2 by auto
  ultimately have "map_of fs' (staging_path k2) = Some (File x2)" using mp st2 by simp
  then show ?thesis using fs be k2
    by (simp add: object_of_def put_object_def split: option.splits)
qed

lemma backend_frame [simp]:
  "be_online (put_object b k d be) = be_online be"
  "be_endpoint (put_object b k d be) = be_endpoint be"
  "be_credentials (put_object b k d be) = be_credentials be"
  "be_online (remove_object b k be) = be_online be"
  "be_endpoint (remove_object b k be) = be_endpoint be"
  "be_credentials (remove_object b k be) = be_credentials be"
  by (simp_all add: put_object_def remove_object_def split: option.splits)

lemma object_of_remove_object:
  "object_of (remove_object b k be) b' k' = (if b' = b \<and> k' = k then None else object_of be b' k')"
  by (auto simp: object_of_def remove_object_def split: option.splits)

lemma object_of_put_object:
  "be_buckets be b \<noteq> None \<Longrightarrow>
   object_of (put_object b k d be) b' k' = (if b' = b \<and> k' = k then Some d else object_of be b' k')"
  by (auto simp: object_of_def put_object_def split: option.splits)

lemma sdk_reachable_cong:
  "sdk_reachable cl (remove_object b k be) = sdk_reachable cl be"
  "sdk_authorized cl (remove_object b k be) = sdk_authorized cl be"
  by (simp_all add: sdk_reachable_def sdk_authorized_def)

text \<open>C4. Deleting a key when the backend is reachable, the credentials are accepted and
  the bucket exists returns \<open>True\<close>, removes exactly that object, and a following
  \<open>get_url\<close> of the key returns \<open>None\<close>; this holds also when the key was absent.\<close>

theorem delete_removes_object:
  assumes net: "sdk_reachable (s3 self) (w_backend w)" and auth: "sdk_authorized (s3 self) (w_backend w)"
    and bucket: "be_buckets (w_backend w) (s3_bucket_name self) \<noteq> None"
  shows "fst (delete self (k # ks) w) = Inr (Some True)
       \<and> w_backend (snd (delete self (k # ks) w)) = remove_object (s3_bucket_name self) k (w_backend w)
       \<and> get_url self k (snd (delete self (k # ks) w)) = Inr None"
proof -
  have d: "delete self (k # ks) w =
             (Inr (Some True), w\<lparr>w_backend := remove_object (s3_bucket_name self) k (w_backend w)\<rparr>)"
    using assms by (simp add: sdk_delete_object_def)
  show ?thesis
    unfolding d using net auth
    by (simp add: get_url_def sdk_head_object_def sdk_reachable_cong object_of_remove_object)
qed

theorem delete_removes_object_witness:
  "fst (delete demo_gateway [''Post/old.webp''] demo_world) = Inr (Some True)
   \<and> get_url demo_gateway ''Post/old.webp'' (snd (delete demo_gateway [''Post/old.webp''] demo_world))
       = Inr None"
proof -
  have "sdk_reachable (s3 demo_gateway) (w_backend demo_world)"
    and "sdk_authorized (s3 demo_gateway) (w_backend demo_world)"
    and "be_buckets (w_backend demo_world) (s3_bucket_name demo_gateway) \<noteq> None"
    by (simp_all add: demo_defs sdk_reachable_def sdk_authorized_def)
  then show ?thesis using delete_removes_object [of demo_gateway demo_world "''Post/old.webp''" "[]"]
    by simp
qed

text \<open>C11. A failed \<open>delete\<close> changes nothing and its exception is a \<open>ValueError\<close>
  with the message prefix \<open>Delete Error: \<close> wrapping the SDK error.\<close>

theorem delete_failure_changes_nothing:
  assumes "fst (delete self ks w) = Inl e"
  shows "snd (delete self ks w) = w \<and> (\<exists>exc. e = Value_Error ''Delete Error: '' exc)"
  using assms
  by (cases ks) (auto simp: sdk_delete_object_def split: if_splits)

lemma get_url_signs:
  assumes net: "sdk_reachable (s3 self) (w_backend w)" and auth: "sdk_authorized (s3 self) (w_backend w)"
    and obj: "object_of (w_backend w) (s3_bucket_name self) k = Some data"
  shows "get_url self k w =
           Inr (Some (sdk_generate_presigned_url (s3 self) ''get_object'' (s3_bucket_name self) k 3600 w))"
  using assms by (simp add: get_url_def sdk_head_object_def)

text \<open>C5. For an object present in the bucket (endpoint reachable, credentials accepted)
  \<open>get_url\<close> returns a presigned URL for that bucket and key, issued now and valid for
  3600 seconds.\<close>

theorem get_url_present:
  assumes net: "sdk_reachable (s3 self) (w_backend w)" and auth: "sdk_authorized (s3 self) (w_backend w)"
    and obj: "object_of (w_backend w) (s3_bucket_name self) k = Some data"
  shows "\<exists>u. get_url self k w = Inr (Some u) \<and> pu_bucket u = s3_bucket_name self \<and> pu_key u = k
             \<and> pu_issued u = w_clock w \<and> pu_expires u = 3600"
  using get_url_signs [OF assms] by (simp add: sdk_generate_presigned_url_def)

text \<open>C8. The URL returned by \<open>get_url\<close> grants read access to exactly the object's
  contents at every time before the clock of the call plus 3600 seconds, and to nothing
  from then on (the backend unchanged).\<close>

theorem presigned_url_window:
  assumes net: "sdk_reachable (s3 self) (w_backend w)" and auth: "sdk_authorized (s3 self) (w_backend w)"
    and obj: "object_of (w_backend w) (s3_bucket_name self) k = Some data"
    and url: "get_url self k w = Inr (Some u)"
  shows "presigned_get (w_backend w) t u = (if t < w_clock w + 3600 then Some data else None)"
proof -
  have u: "u = sdk_generate_presigned_url (s3 self) ''get_object'' (s3_bucket_name self) k 3600 w"
    using url get_url_signs [OF net auth obj] by simp
  have "be_online (w_backend w) \<and> pu_endpoint u = be_endpoint (w_backend w)
        \<and> (pu_access_key u, pu_signature u) \<in> set (be_credentials (w_backend w))"
    using net auth u by (simp add: sdk_reachable_def sdk_authorized_def sdk_generate_presigned_url_def)
  then show ?thesis
    using u obj by (simp add: presigned_get_def sdk_generate_presigned_url_def)
qed

text \<open>C6. For a key absent from the bucket \<open>get_url\<close> returns \<open>None\<close> and raises nothing.\<close>

theorem get_url_absent:
  assumes net: "sdk_reachable (s3 self) (w_backend w)" and auth: "sdk_authorized (s3 self) (w_backend w)"
    and obj: "object_of (w_backend w) (s3_bucket_name self) k = None"
  shows "get_url self k w = Inr None"
  using assms by (simp add: get_url_def Let_def sdk_head_object_def)

text \<open>C9. When the backend rejects the credentials, \<open>get_url\<close> returns \<open>None\<close>, as for
  a missing object: the handler catches every \<open>ClientError\<close>, the 403 included.\<close>

theorem get_url_forbidden_is_absent:
  assumes net: "sdk_reachable (s3 self) (w_backend w)" and auth: "\<not> sdk_authorized (s3 self) (w_backend w)"
  shows "get_url self k w = Inr None"
  using assms by (simp add: get_url_def Let_def sdk_head_object_def)

text \<open>C12. The constructor prints a line that contains the secret access key in clear.\<close>

theorem init_prints_secret:
  "py_contains secret_access_key
     (last (w_stdout (snd (s3minio_init endpoint_url access_key_id secret_access_key bucket_name w))))"
proof -
  let ?line = "''Initializing S3Minio with endpoint: '' @ endpoint_url @ '', ''
                  @ ''access_key_id: '' @ access_key_id @ '', ''
                  @ ''secret_access_key: '' @ secret_access_key @ '', ''
                  @ ''bucket_name: '' @ bucket_name"
  have "last (w_stdout (snd (s3minio_init endpoint_url access_key_id secret_access_key bucket_name w))) = ?line"
    by (simp add: s3minio_init_def py_print_def)
  moreover have "sublist secret_access_key ?line"
    unfolding sublist_def
    by (rule exI [of _ "''Initializing S3Minio with endpoint: '' @ endpoint_url @ '', ''
                  @ ''access_key_id: '' @ access_key_id @ '', '' @ ''secret_access_key: ''"],
        rule exI [of _ "'', '' @ ''bucket_name: '' @ bucket_name"]) simp
  ultimately show ?thesis by (simp add: py_contains_sublist)
qed

text \<open>C10. When the endpoint is unreachable, \<open>get_url\<close> raises the SDK's
  \<open>EndpointConnectionError\<close> unwrapped.\<close>

theorem get_url_unreachable:
  assumes "\<not> sdk_reachable (s3 self) (w_backend w)"
  shows "get_url self k w = Inl (Sdk_Error (Endpoint_Connection_Error (cl_endpoint (s3 self))))"
  using assms by (simp add: get_url_def Let_def sdk_head_object_def)

text \<open>C13. \<open>delete\<close> also returns inside its loop: for \<open>delete(k1, k2, ...)\<close> the object
  of any later key \<open>k2 \<noteq> k1\<close> stays in the bucket.\<close>

theorem delete_ignores_later_keys:
  assumes "k2 \<noteq> k1"
  shows "object_of (w_backend (snd (delete self (k1 # k2 # ks) w))) (s3_bucket_name self) k2
           = object_of (w_backend w) (s3_bucket_name self) k2"
  using assms by (simp add: sdk_delete_object_def object_of_remove_object)

lemma upload_cleanup_not_false: "fst (upload_cleanup p w) \<noteq> Inr (Some False)"
  by (auto simp: upload_cleanup_def Let_def split: sum.splits list.splits)

text \<open>C14. Neither \<open>upload\<close> nor \<open>delete\<close> ever returns \<open>False\<close>: each returns
  \<open>True\<close>, \<open>None\<close> (no argument) or raises.\<close>

theorem handlers_never_return_false:
  "fst (upload self ks w) \<noteq> Inr (Some False) \<and> fst (delete self ks w) \<noteq> Inr (Some False)"
proof (cases ks)
  case (Cons k ks')
  have "fst (upload_one self k w) \<noteq> Inr (Some False)"
    using upload_cleanup_not_false by (simp add: upload_one_def Let_def split: sum.splits)
  then show ?thesis using Cons by (simp split: sum.splits)
qed simp

lemma demo_facts:
  "fs_wf (w_fs demo_world)"
  "sdk_reachable (s3 demo_gateway) (w_backend demo_world)"
  "sdk_authorized (s3 demo_gateway) (w_backend demo_world)"
  "be_buckets (w_backend demo_world) (s3_bucket_name demo_gateway) \<noteq> None"
  by (simp_all add: demo_defs fs_wf_def norm_path_def py_split_def posix_dirname_def py_rstrip_def
        sdk_reachable_def sdk_authorized_def)

theorem upload_stores_object_witness:
  "fst (upload demo_gateway [''Post/a.png''] demo_world) = Inr (Some True)
   \<and> object_of (w_backend (snd (upload demo_gateway [''Post/a.png''] demo_world))) ''media'' ''Post/a.png''
       = Some [1, 2, 3]"
proof -
  have st: "map_of (w_fs demo_world) (staging_path ''Post/a.png'') = Some (File [1, 2, 3])"
    by (simp add: demo_defs staging_path_def)
  show ?thesis
    using upload_stores_object [OF demo_facts(1) st demo_facts(2,3,4), of "[]"]
    by (simp add: put_object_def object_of_def demo_defs)
qed

theorem upload_missing_staged_file_witness:
  "fst (upload demo_gateway [''Post/c.png''] demo_world) =
     Inl (Value_Error ''Upload Error: '' (Value_Error ''Upload Error: ''
            (OS_Error (File_Not_Found ''temp/media/Post/c.png''))))"
proof -
  have "map_of (w_fs demo_world) (staging_path ''Post/c.png'') = None"
    by (simp add: demo_defs staging_path_def)
  then show ?thesis using upload_missing_staged_file [of demo_world "''Post/c.png''" demo_gateway "[]"]
    by (simp add: staging_path_def)
qed

theorem upload_ignores_later_keys_witness:
  "map_of (w_fs (snd (upload demo_gateway [''Post/a.png'', ''Post/b.png''] demo_world)))
      ''temp/media/Post/b.png'' = Some (File [4, 5])
   \<and> object_of (w_backend (snd (upload demo_gateway [''Post/a.png'', ''Post/b.png''] demo_world)))
      ''media'' ''Post/b.png'' = None"
proof -
  have "map_of (w_fs demo_world) (staging_path ''Post/b.png'') = Some (File [4, 5])"
    by (simp add: demo_defs staging_path_def)
  then show ?thesis
    using upload_ignores_later_keys [OF demo_facts(1), of "''Post/b.png''" "''Post/a.png''" "[4, 5]" demo_gateway "[]"]
    by (simp add: staging_path_def demo_defs object_of_def)
qed

theorem upload_transfer_failure_has_no_effect_witness:
  "w_fs (snd (upload demo_gateway [''Post/c.png''] demo_world)) = w_fs demo_world"
proof -
  have "fst (upload demo_gateway [''Post/c.png''] demo_world) =
     Inl (Value_Error ''Upload Error: '' (Value_Error ''Upload Error: ''
            (OS_Error (File_Not_Found ''temp/media/Post/c.png''))))"
    by (simp add: demo_defs upload_one_def Let_def sdk_upload_file_def staging_path_def py_print_def)
  then show ?thesis using upload_transfer_failure_has_no_effect by blast
qed

theorem delete_failure_changes_nothing_witness:
  "snd (delete demo_gateway_offline [''Post/old.webp''] demo_world) = demo_world"
proof -
  have "fst (delete demo_gateway_offline [''Post/old.webp''] demo_world) =
          Inl (Value_Error ''Delete Error: '' (Sdk_Error (Endpoint_Connection_Error ''http://localhost:9000'')))"
    by (simp add: demo_defs sdk_delete_object_def sdk_reachable_def)
  then show ?thesis using delete_failure_changes_nothing by blast
qed

theorem get_url_present_witness:
  "\<exists>u. get_url demo_gateway ''Post/old.webp'' demo_world = Inr (Some u) \<and> pu_key u = ''Post/old.webp''
      \<and> pu_expires u = 3600"
proof -
  have "object_of (w_backend demo_world) (s3_bucket_name demo_gateway) ''Post/old.webp'' = Some [7]"
    by (simp add: demo_defs object_of_def)
  then show ?thesis using get_url_present [OF demo_facts(2,3)] by blast
qed

theorem presigned_url_window_witness:
  "\<exists>u. get_url demo_gateway ''Post/old.webp'' demo_world = Inr (Some u)
      \<and> presigned_get (w_backend demo_world) 4599 u = Some [7]
      \<and> presigned_get (w_backend demo_world) 4600 u = None"
proof -
  have obj: "object_of (w_backend demo_world) (s3_bucket_name demo_gateway) ''Post/old.webp'' = Some [7]"
    by (simp add: demo_defs object_of_def)
  obtain u where u: "get_url demo_gateway ''Post/old.webp'' demo_world = Inr (Some u)"
    using get_url_signs [OF demo_facts(2,3) obj] by blast
  have clk: "w_clock demo_world = 1000" by (simp add: demo_defs)
  show ?thesis
    using u presigned_url_window [OF demo_facts(2,3) obj u, of 4599]
      presigned_url_window [OF demo_facts(2,3) obj u, of 4600] clk by auto
qed

theorem get_url_absent_witness:
  "get_url demo_gateway ''Post/none.webp'' demo_world = Inr None"
proof -
  have "object_of (w_backend demo_world) (s3_bucket_name demo_gateway) ''Post/none.webp'' = None"
    by (simp add: demo_defs object_of_def)
  then show ?thesis using get_url_absent [OF demo_facts(2,3)] by blast
qed

theorem get_url_forbidden_is_absent_witness:
  "get_url demo_gateway_badkey ''Post/old.webp'' demo_world = Inr None"
proof -
  have "sdk_reachable (s3 demo_gateway_badkey) (w_backend demo_world)"
    and "\<not> sdk_authorized (s3 demo_gateway_badkey) (w_backend demo_world)"
    by (simp_all add: demo_defs sdk_reachable_def sdk_authorized_def)
  then show ?thesis by (rule get_url_forbidden_is_absent)
qed

theorem delete_ignores_later_keys_witness:
  "object_of (w_backend (snd (delete demo_gateway [''Post/gone.webp'', ''Post/old.webp''] demo_world)))
      ''media'' ''Post/old.webp'' = Some [7]"
  using delete_ignores_later_keys [of "''Post/old.webp''" "''Post/gone.webp''" demo_gateway "[]" demo_world]
  by (simp add: demo_defs object_of_def)

theorem get_url_unreachable_witness:
  "get_url demo_gateway_offline ''Post/old.webp'' demo_world =
     Inl (Sdk_Error (Endpoint_Connection_Error ''http://localhost:9000''))"
proof -
  have "\<not> sdk_reachable (s3 demo_gateway_offline) (w_backend demo_world)"
    by (simp add: demo_defs sdk_reachable_def)
  then show ?thesis using get_url_unreachable by (simp add: demo_gateway_offline_def)
qed

end
