(* ===== verification/System.thy ===== *)
theory System
  imports Gateway
begin

text \<open>
  The gateway as a system: an \<open>S3Minio\<close> object called any number of times,
  interleaved with the events of its environment (a file saved under the staging
  directory, the clock advancing).  \<open>gw_exec\<close> executes one event, \<open>gw_run\<close> a
  sequence, \<open>gw_reach\<close> is the reachability relation.  The invariants are proved by
  rule induction on \<open>gw_reach\<close>.  The abstract specification of the gateway
  (\<open>spec.md\<close>, section 4.1) is the store \<open>kv\<close> of staged files and bucket objects,
  both keyed by object key, with the step relation \<open>kv_step\<close>; \<open>kv_abs\<close> reads
  it off a world, and the refinement theorem shows every run of the code is a run of
  the specification under that abstraction.
\<close>

subsection \<open>Events and the executable system\<close>

datatype gw_call = Upload "string list" | Delete "string list" | Get_Url string

datatype gw_event = Call gw_call | Stage string bytes | Tick nat

datatype gw_reply =
    Reply_Bool "py_exc + bool option"
  | Reply_Url "py_exc + presigned_url option"
  | Reply_Io "os_error + unit"
  | Reply_Tick

fun gw_exec :: "s3minio \<Rightarrow> gw_event \<Rightarrow> world \<Rightarrow> gw_reply \<times> world" where
  "gw_exec g (Call (Upload ks)) w = apfst Reply_Bool (upload g ks w)"
| "gw_exec g (Call (Delete ks)) w = apfst Reply_Bool (delete g ks w)"
| "gw_exec g (Call (Get_Url k)) w = (Reply_Url (get_url g k w), w)"
| "gw_exec g (Stage k d) w =
     (case fs_write (w_fs w) (staging_path k) d of
        Inl e \<Rightarrow> (Reply_Io (Inl e), w)
      | Inr fs' \<Rightarrow> (Reply_Io (Inr ()), w\<lparr>w_fs := fs'\<rparr>))"
| "gw_exec g (Tick n) w = (Reply_Tick, w\<lparr>w_clock := w_clock w + n\<rparr>)"

fun gw_run :: "s3minio \<Rightarrow> gw_event list \<Rightarrow> world \<Rightarrow> gw_reply list \<times> world" where
  "gw_run g [] w = ([], w)"
| "gw_run g (e # es) w =
     (let (r, w1) = gw_exec g e w; (rs, w2) = gw_run g es w1 in (r # rs, w2))"

text \<open>A world is reachable from \<open>w0\<close> when some sequence of events leads to it.\<close>

inductive gw_reach :: "s3minio \<Rightarrow> world \<Rightarrow> world \<Rightarrow> bool" for g w0 where
  reach_init: "gw_reach g w0 w0"
| reach_step: "gw_reach g w0 w \<Longrightarrow> gw_exec g e w = (r, w') \<Longrightarrow> gw_reach g w0 w'"

text \<open>The backend is usable by the gateway: the endpoint answers, the credentials are
  accepted and the bucket exists.\<close>

definition gw_healthy :: "s3minio \<Rightarrow> world \<Rightarrow> bool" where
  "gw_healthy g w \<longleftrightarrow> sdk_reachable (s3 g) (w_backend w) \<and> sdk_authorized (s3 g) (w_backend w)
     \<and> be_buckets (w_backend w) (s3_bucket_name g) \<noteq> None"

subsection \<open>The abstract store of the specification\<close>

text \<open>Staged files and bucket objects by key; the staging write of the environment may
  fail (a missing directory), which leaves the store unchanged.\<close>

record kv =
  kv_staged :: "string \<Rightarrow> bytes option"
  kv_objects :: "string \<Rightarrow> bytes option"

datatype kv_reply = KV_Bool bool | KV_None | KV_Error | KV_Link string | KV_Absent | KV_Done

inductive kv_step :: "kv \<Rightarrow> gw_event \<Rightarrow> kv_reply \<Rightarrow> kv \<Rightarrow> bool" where
  kv_upload_none: "kv_step s (Call (Upload [])) KV_None s"
| kv_upload: "kv_staged s k = Some d \<Longrightarrow>
    kv_step s (Call (Upload (k # ks))) (KV_Bool True)
      \<lparr>kv_staged = (kv_staged s)(k := None), kv_objects = (kv_objects s)(k \<mapsto> d)\<rparr>"
| kv_upload_missing: "kv_staged s k = None \<Longrightarrow> kv_step s (Call (Upload (k # ks))) KV_Error s"
| kv_delete_none: "kv_step s (Call (Delete [])) KV_None s"
| kv_delete: "kv_step s (Call (Delete (k # ks))) (KV_Bool True) (s\<lparr>kv_objects := (kv_objects s)(k := None)\<rparr>)"
| kv_url: "kv_objects s k \<noteq> None \<Longrightarrow> kv_step s (Call (Get_Url k)) (KV_Link k) s"
| kv_url_absent: "kv_objects s k = None \<Longrightarrow> kv_step s (Call (Get_Url k)) KV_Absent s"
| kv_stage: "kv_step s (Stage k d) KV_Done (s\<lparr>kv_staged := (kv_staged s)(k \<mapsto> d)\<rparr>)"
| kv_stage_failed: "kv_step s (Stage k d) KV_Error s"
| kv_tick: "kv_step s (Tick n) KV_Done s"

inductive kv_steps :: "kv \<Rightarrow> (gw_event \<times> kv_reply) list \<Rightarrow> kv \<Rightarrow> bool" where
  kv_steps_Nil: "kv_steps s [] s"
| kv_steps_Cons: "kv_step s e r s' \<Longrightarrow> kv_steps s' tr s'' \<Longrightarrow> kv_steps s ((e, r) # tr) s''"

fun kv_reply_of :: "gw_reply \<Rightarrow> kv_reply" where
  "kv_reply_of (Reply_Bool (Inr (Some b))) = KV_Bool b"
| "kv_reply_of (Reply_Bool (Inr None)) = KV_None"
| "kv_reply_of (Reply_Bool (Inl _)) = KV_Error"
| "kv_reply_of (Reply_Url (Inr (Some u))) = KV_Link (pu_key u)"
| "kv_reply_of (Reply_Url (Inr None)) = KV_Absent"
| "kv_reply_of (Reply_Url (Inl _)) = KV_Error"
| "kv_reply_of (Reply_Io (Inr _)) = KV_Done"
| "kv_reply_of (Reply_Io (Inl _)) = KV_Error"
| "kv_reply_of Reply_Tick = KV_Done"

subsection \<open>Abstraction\<close>

definition staged_of :: "fs \<Rightarrow> string \<Rightarrow> bytes option" where
  "staged_of fs k = (case map_of fs (staging_path k) of Some (File d) \<Rightarrow> Some d | _ \<Rightarrow> None)"

definition kv_abs :: "s3minio \<Rightarrow> world \<Rightarrow> kv" where
  "kv_abs g w = \<lparr>kv_staged = staged_of (w_fs w), kv_objects = object_of (w_backend w) (s3_bucket_name g)\<rparr>"


text \<open>What the gateway may change in a backend: only objects of its own bucket.\<close>

definition backend_frame :: "string \<Rightarrow> backend \<Rightarrow> backend \<Rightarrow> bool" where
  "backend_frame b be be' \<longleftrightarrow>
     be_endpoint be' = be_endpoint be \<and> be_online be' = be_online be
     \<and> be_credentials be' = be_credentials be \<and> dom (be_buckets be') = dom (be_buckets be)
     \<and> (\<forall>b' k. b' \<noteq> b \<longrightarrow> object_of be' b' k = object_of be b' k)"

subsection \<open>Frame, invariants and simulation\<close>

lemma staging_path_inj [simp]: "staging_path a = staging_path b \<longleftrightarrow> a = b"
  by (simp add: staging_path_def)

lemma upload_cleanup_backend [simp]: "w_backend (snd (upload_cleanup p w)) = w_backend w"
  by (simp add: upload_cleanup_def Let_def split: sum.splits list.splits)

lemma backend_frame_refl [simp]: "backend_frame b be be"
  by (simp add: backend_frame_def)

lemma backend_frame_trans:
  "backend_frame b be1 be2 \<Longrightarrow> backend_frame b be2 be3 \<Longrightarrow> backend_frame b be1 be3"
  by (simp add: backend_frame_def)

lemma put_object_frame:
  "be_buckets be b \<noteq> None \<Longrightarrow> backend_frame b be (put_object b k d be)"
  by (auto simp: backend_frame_def put_object_def object_of_def split: option.splits)

lemma remove_object_frame: "backend_frame b be (remove_object b k be)"
  by (auto simp: backend_frame_def remove_object_def object_of_def split: option.splits)

lemma backend_frame_healthy:
  assumes "backend_frame (s3_bucket_name g) (w_backend w) (w_backend w')" and "gw_healthy g w"
  shows "gw_healthy g w'"
proof -
  have "s3_bucket_name g \<in> dom (be_buckets (w_backend w'))"
    using assms by (auto simp: backend_frame_def gw_healthy_def)
  then show ?thesis
    using assms by (auto simp: backend_frame_def gw_healthy_def sdk_reachable_def sdk_authorized_def)
qed

lemma upload_one_backend:
  "backend_frame (s3_bucket_name g) (w_backend w) (w_backend (snd (upload_one g k w)))"
proof (cases "sdk_upload_file (s3 g) (staging_path k) (s3_bucket_name g) k w")
  case (Inl e)
  then show ?thesis using upload_one_transfer_error by simp
next
  case (Inr w1)
  then obtain d where st: "map_of (w_fs w) (staging_path k) = Some (File d)"
    and net: "sdk_reachable (s3 g) (w_backend w)" and auth: "sdk_authorized (s3 g) (w_backend w)"
    and bk: "be_buckets (w_backend w) (s3_bucket_name g) \<noteq> None"
    using sdk_upload_file_Inr by blast
  obtain w' where "upload_one g k w = upload_cleanup (staging_path k) w'"
    and "w_backend w' = put_object (s3_bucket_name g) k d (w_backend w)"
    using upload_one_transfer [OF st net auth bk] by blast
  then show ?thesis using put_object_frame [OF bk] by simp
qed

lemma gw_exec_backend_frame:
  "backend_frame (s3_bucket_name g) (w_backend w) (w_backend (snd (gw_exec g e w)))"
proof (cases e)
  case (Call c)
  then show ?thesis
  proof (cases c)
    case (Upload ks)
    then show ?thesis using Call upload_one_backend by (cases ks) simp_all
  next
    case (Delete ks)
    then show ?thesis using Call remove_object_frame
      by (cases ks) (simp_all add: sdk_delete_object_def)
  qed simp
qed (simp_all split: sum.splits)

lemma upload_one_fs_wf:
  "fs_wf (w_fs w) \<Longrightarrow> fs_wf (w_fs (snd (upload_one g k w)))"
  using upload_one_effect [of w g k] by auto

lemma gw_exec_fs_wf:
  assumes "fs_wf (w_fs w)"
  shows "fs_wf (w_fs (snd (gw_exec g e w)))"
proof (cases e)
  case (Call c)
  then show ?thesis
  proof (cases c)
    case (Upload ks)
    then show ?thesis using Call assms upload_one_fs_wf by (cases ks) simp_all
  next
    case (Delete ks)
    then show ?thesis using Call assms by (cases ks) (simp_all add: sdk_delete_object_def)
  qed (simp add: assms)
qed (use assms fs_write_Inr in \<open>auto split: sum.splits\<close>)

lemma gw_exec_healthy:
  "gw_healthy g w \<Longrightarrow> gw_healthy g (snd (gw_exec g e w))"
  using backend_frame_healthy gw_exec_backend_frame by blast

lemma upload_one_success:
  assumes wf: "fs_wf (w_fs w)" and h: "gw_healthy g w"
    and st: "map_of (w_fs w) (staging_path k) = Some (File d)"
  shows "fst (upload_one g k w) = Inr (Some True)"
proof -
  have net: "sdk_reachable (s3 g) (w_backend w)" and auth: "sdk_authorized (s3 g) (w_backend w)"
    and bk: "be_buckets (w_backend w) (s3_bucket_name g) \<noteq> None"
    using h by (simp_all add: gw_healthy_def)
  obtain w' where up: "upload_one g k w = upload_cleanup (staging_path k) w'"
    and fs': "w_fs w' = w_fs w"
    using upload_one_transfer [OF st net auth bk] by blast
  show ?thesis using up upload_cleanup_ok [of w' "staging_path k" d] wf st fs' by auto
qed

lemma staged_of_cleanup:
  assumes wf: "fs_wf fs" and st: "map_of fs (staging_path k) = Some (File d)"
    and mp: "\<forall>q. map_of fs' q =
                 (if q = staging_path k \<or> (q = posix_dirname (staging_path k)
                    \<and> (\<forall>(r, n) \<in> set fs. r = staging_path k \<or> r = q \<or> posix_dirname r \<noteq> q))
                  then None else map_of fs q)"
  shows "staged_of fs' = (staged_of fs)(k := None)"
proof
  fix k'
  have par: "map_of fs (posix_dirname (staging_path k)) \<noteq> Some (File y)" for y
    using fs_wf_file_parent [OF wf st] by blast
  show "staged_of fs' k' = ((staged_of fs)(k := None)) k'"
    using mp par by (cases "map_of fs (staging_path k')") (auto simp: staged_of_def split: node.splits)
qed

lemma upload_one_kv:
  assumes wf: "fs_wf (w_fs w)" and h: "gw_healthy g w"
  shows "(staged_of (w_fs w) k = None \<and> (\<exists>e. fst (upload_one g k w) = Inl e)
            \<and> kv_abs g (snd (upload_one g k w)) = kv_abs g w)
       \<or> (\<exists>d. staged_of (w_fs w) k = Some d \<and> fst (upload_one g k w) = Inr (Some True)
            \<and> kv_abs g (snd (upload_one g k w)) =
                \<lparr>kv_staged = (staged_of (w_fs w))(k := None),
                 kv_objects = (object_of (w_backend w) (s3_bucket_name g))(k \<mapsto> d)\<rparr>)"
  using upload_one_effect [OF wf, of g k]
proof
  assume a: "\<exists>e. fst (upload_one g k w) = Inl e \<and> w_fs (snd (upload_one g k w)) = w_fs w
            \<and> w_backend (snd (upload_one g k w)) = w_backend w"
  have "staged_of (w_fs w) k = None"
  proof (rule ccontr)
    assume "staged_of (w_fs w) k \<noteq> None"
    then obtain d where "map_of (w_fs w) (staging_path k) = Some (File d)"
      by (auto simp: staged_of_def split: option.splits node.splits)
    then show False using upload_one_success [OF wf h] a by auto
  qed
  then show ?thesis using a by (simp add: kv_abs_def)
next
  assume "\<exists>data fs'. map_of (w_fs w) (staging_path k) = Some (File data)
            \<and> fst (upload_one g k w) = Inr (Some True)
            \<and> w_backend (snd (upload_one g k w)) = put_object (s3_bucket_name g) k data (w_backend w)
            \<and> w_fs (snd (upload_one g k w)) = fs' \<and> fs_wf fs'
            \<and> (\<forall>q. map_of fs' q =
                 (if q = staging_path k \<or> (q = posix_dirname (staging_path k)
                    \<and> (\<forall>(r, n) \<in> set (w_fs w). r = staging_path k \<or> r = q \<or> posix_dirname r \<noteq> q))
                  then None else map_of (w_fs w) q))"
  then obtain d fs' where st: "map_of (w_fs w) (staging_path k) = Some (File d)"
    and ok: "fst (upload_one g k w) = Inr (Some True)"
    and be: "w_backend (snd (upload_one g k w)) = put_object (s3_bucket_name g) k d (w_backend w)"
    and fs: "w_fs (snd (upload_one g k w)) = fs'"
    and mp: "\<forall>q. map_of fs' q =
                 (if q = staging_path k \<or> (q = posix_dirname (staging_path k)
                    \<and> (\<forall>(r, n) \<in> set (w_fs w). r = staging_path k \<or> r = q \<or> posix_dirname r \<noteq> q))
                  then None else map_of (w_fs w) q)"
    by blast
  have bk: "be_buckets (w_backend w) (s3_bucket_name g) \<noteq> None" using h by (simp add: gw_healthy_def)
  have "object_of (w_backend (snd (upload_one g k w))) (s3_bucket_name g)
          = (object_of (w_backend w) (s3_bucket_name g))(k \<mapsto> d)"
    using be object_of_put_object [OF bk] by auto
  moreover have "staged_of (w_fs (snd (upload_one g k w))) = (staged_of (w_fs w))(k := None)"
    using staged_of_cleanup [OF wf st mp] fs by simp
  moreover have "staged_of (w_fs w) k = Some d" using st by (simp add: staged_of_def)
  ultimately show ?thesis using ok by (simp add: kv_abs_def)
qed

lemma get_url_healthy:
  "gw_healthy g w \<Longrightarrow> get_url g k w =
     (if object_of (w_backend w) (s3_bucket_name g) k = None then Inr None
      else Inr (Some (sdk_generate_presigned_url (s3 g) ''get_object'' (s3_bucket_name g) k 3600 w)))"
  by (simp add: gw_healthy_def get_url_def Let_def sdk_head_object_def)

lemma staged_of_write:
  "map_of fs' = (map_of fs)(staging_path k \<mapsto> File d) \<Longrightarrow> staged_of fs' = (staged_of fs)(k \<mapsto> d)"
  by (rule ext) (simp add: staged_of_def)

lemma gw_exec_refines:
  assumes wf: "fs_wf (w_fs w)" and h: "gw_healthy g w"
  shows "kv_step (kv_abs g w) e (kv_reply_of (fst (gw_exec g e w))) (kv_abs g (snd (gw_exec g e w)))"
proof (cases e)
  case (Call c)
  show ?thesis
  proof (cases c)
    case (Upload ks)
    show ?thesis
    proof (cases ks)
      case Nil
      then show ?thesis using Call Upload by (simp add: kv_step.intros)
    next
      case (Cons k ks')
      from upload_one_kv [OF wf h, of k] show ?thesis
      proof
        assume "staged_of (w_fs w) k = None \<and> (\<exists>e. fst (upload_one g k w) = Inl e)
                  \<and> kv_abs g (snd (upload_one g k w)) = kv_abs g w"
        then show ?thesis using Call Upload Cons kv_upload_missing [of "kv_abs g w" k ks']
          by (auto simp: kv_abs_def)
      next
        assume "\<exists>d. staged_of (w_fs w) k = Some d \<and> fst (upload_one g k w) = Inr (Some True)
            \<and> kv_abs g (snd (upload_one g k w)) =
                \<lparr>kv_staged = (staged_of (w_fs w))(k := None),
                 kv_objects = (object_of (w_backend w) (s3_bucket_name g))(k \<mapsto> d)\<rparr>"
        then obtain d where "kv_staged (kv_abs g w) k = Some d"
          and "fst (upload_one g k w) = Inr (Some True)"
          and "kv_abs g (snd (upload_one g k w)) =
                \<lparr>kv_staged = (kv_staged (kv_abs g w))(k := None),
                 kv_objects = (kv_objects (kv_abs g w))(k \<mapsto> d)\<rparr>"
          by (auto simp: kv_abs_def)
        then show ?thesis using Call Upload Cons kv_upload by fastforce
      qed
    qed
  next
    case (Delete ks)
    show ?thesis
    proof (cases ks)
      case Nil
      then show ?thesis using Call Delete by (simp add: kv_step.intros)
    next
      case (Cons k ks')
      have "kv_abs g (snd (delete g ks w)) = (kv_abs g w)\<lparr>kv_objects := (kv_objects (kv_abs g w))(k := None)\<rparr>"
        and "fst (delete g ks w) = Inr (Some True)"
        using h Cons by (auto simp: gw_healthy_def sdk_delete_object_def kv_abs_def object_of_remove_object)
      then show ?thesis using Call Delete kv_delete [of "kv_abs g w" k ks'] Cons by simp
    qed
  next
    case (Get_Url k)
    then show ?thesis using Call get_url_healthy [OF h, of k]
      by (cases "object_of (w_backend w) (s3_bucket_name g) k")
         (simp_all add: kv_step.intros kv_abs_def sdk_generate_presigned_url_def)
  qed
next
  case (Stage k d)
  show ?thesis
  proof (cases "fs_write (w_fs w) (staging_path k) d")
    case (Inl err)
    then show ?thesis using Stage by (simp add: kv_step.intros)
  next
    case (Inr fs')
    then have "staged_of fs' = (staged_of (w_fs w))(k \<mapsto> d)"
      using fs_write_Inr [OF wf] staged_of_write by blast
    then show ?thesis using Stage Inr kv_stage [of "kv_abs g w" k d] by (simp add: kv_abs_def)
  qed
next
  case (Tick n)
  then show ?thesis using kv_tick [of "kv_abs g w" n] by (simp add: kv_abs_def)
qed

lemma gw_run_Cons_unfold:
  "gw_run g (e # es) w =
     (fst (gw_exec g e w) # fst (gw_run g es (snd (gw_exec g e w))), snd (gw_run g es (snd (gw_exec g e w))))"
  by (simp add: split_def Let_def)

lemma gw_reach_prepend:
  assumes "gw_reach g w1 w" and "gw_exec g e w0 = (r, w1)"
  shows "gw_reach g w0 w"
  using assms(1)
proof induction
  case reach_init
  then show ?case using assms(2) by (blast intro: gw_reach.intros)
next
  case (reach_step w e' r' w')
  then show ?case by (blast intro: gw_reach.intros)
qed

lemma gw_reach_run: "gw_reach g w0 (snd (gw_run g es w0))"
proof (induction es arbitrary: w0)
  case Nil
  then show ?case by (simp add: reach_init)
next
  case (Cons e es)
  then show ?case
    using gw_reach_prepend [of g "snd (gw_exec g e w0)" _ e w0 "fst (gw_exec g e w0)"]
    by (simp del: gw_run.simps(2) add: gw_run_Cons_unfold)
qed

lemma upload_one_clock: "w_clock (snd (upload_one g k w)) = w_clock w"
  by (auto simp: upload_one_def Let_def upload_cleanup_def sdk_upload_file_def
      split: sum.splits option.splits node.splits list.splits)

lemma presigned_get_generated:
  assumes h: "gw_healthy g w" and obj: "object_of (w_backend w) (s3_bucket_name g) k = Some d"
  shows "presigned_get (w_backend w) t
           (sdk_generate_presigned_url (s3 g) ''get_object'' (s3_bucket_name g) k 3600 w)
         = (if t < w_clock w + 3600 then Some d else None)"
  using assms by (simp add: gw_healthy_def sdk_reachable_def sdk_authorized_def presigned_get_def
      sdk_generate_presigned_url_def)

lemma demo_healthy: "gw_healthy demo_gateway demo_world"
  using demo_facts(2-4) by (simp add: gw_healthy_def)

text \<open>C24. The gateway never changes the backend's configuration (endpoint, availability,
  credentials, set of buckets) and never touches an object of another bucket than its
  own, in any reachable world.\<close>

theorem gw_reach_backend_frame:
  assumes "gw_reach g w0 w"
  shows "backend_frame (s3_bucket_name g) (w_backend w0) (w_backend w)"
  using assms by induction (metis backend_frame_refl backend_frame_trans gw_exec_backend_frame snd_conv)+

text \<open>C25. Refinement: from a world with a well-formed file system where the endpoint is
  reachable, the credentials accepted and the bucket present, every run of calls and
  staging writes is matched, reply by reply, by the abstract store of the specification
  (staged files and bucket objects keyed by object key): upload of a staged key moves its
  bytes into the store and unstages it, upload of an unstaged key fails with no effect,
  delete removes the key, a URL is returned exactly for a present key.\<close>

theorem gw_run_refines_kv:
  assumes "fs_wf (w_fs w)" and "gw_healthy g w"
  shows "kv_steps (kv_abs g w) (zip es (map kv_reply_of (fst (gw_run g es w))))
           (kv_abs g (snd (gw_run g es w)))"
  using assms
proof (induction es arbitrary: w)
  case Nil
  then show ?case by (simp add: kv_steps_Nil)
next
  case (Cons e es)
  have "kv_steps (kv_abs g (snd (gw_exec g e w)))
          (zip es (map kv_reply_of (fst (gw_run g es (snd (gw_exec g e w))))))
          (kv_abs g (snd (gw_run g es (snd (gw_exec g e w)))))"
    using Cons.IH gw_exec_fs_wf [OF Cons.prems(1)] gw_exec_healthy [OF Cons.prems(2)] by blast
  then show ?case
    using kv_steps_Cons [OF gw_exec_refines [OF Cons.prems, of e]]
    by (simp del: gw_run.simps(2) add: gw_run_Cons_unfold)
qed

text \<open>C26. Upload then presign: in a well-formed world with a healthy backend, uploading
  a staged key and then asking for its URL returns \<open>True\<close> and a URL that serves
  exactly the staged bytes until the clock of the calls plus 3600 seconds.\<close>

theorem upload_then_get_url_serves:
  assumes wf: "fs_wf (w_fs w)" and h: "gw_healthy g w" and st: "staged_of (w_fs w) k = Some d"
  shows "\<exists>u. fst (gw_run g [Call (Upload [k]), Call (Get_Url k)] w)
               = [Reply_Bool (Inr (Some True)), Reply_Url (Inr (Some u))]
           \<and> (\<forall>t. presigned_get (w_backend (snd (gw_run g [Call (Upload [k]), Call (Get_Url k)] w))) t u
                  = (if t < w_clock w + 3600 then Some d else None))"
proof -
  let ?w1 = "snd (upload_one g k w)"
  have ok: "fst (upload_one g k w) = Inr (Some True)"
    and obj: "object_of (w_backend ?w1) (s3_bucket_name g) k = Some d"
    using upload_one_kv [OF wf h, of k] st by (auto simp: kv_abs_def)
  have h1: "gw_healthy g ?w1" using gw_exec_healthy [OF h, of "Call (Upload [k])"] by simp
  let ?u = "sdk_generate_presigned_url (s3 g) ''get_object'' (s3_bucket_name g) k 3600 ?w1"
  have url: "get_url g k ?w1 = Inr (Some ?u)" using get_url_healthy [OF h1] obj by simp
  have "presigned_get (w_backend ?w1) t ?u = (if t < w_clock w + 3600 then Some d else None)" for t
    using presigned_get_generated [OF h1 obj] upload_one_clock by simp
  then show ?thesis using ok url by (simp add: split_def Let_def)
qed

theorem gw_reach_backend_frame_witness:
  "backend_frame ''media'' (w_backend demo_world)
     (w_backend (snd (gw_run demo_gateway
        [Stage ''Post/c.png'' [9], Call (Upload [''Post/c.png'']), Call (Delete [''Post/old.webp''])]
        demo_world)))"
proof -
  have "''media'' = s3_bucket_name demo_gateway" by (simp add: demo_gateway_def)
  then show ?thesis by (simp only:) (rule gw_reach_backend_frame [OF gw_reach_run])
qed

theorem gw_run_refines_kv_witness:
  "kv_steps (kv_abs demo_gateway demo_world)
     (zip [Stage ''Post/c.png'' [9], Call (Upload [''Post/c.png'']), Call (Get_Url ''Post/c.png'')]
        (map kv_reply_of (fst (gw_run demo_gateway
           [Stage ''Post/c.png'' [9], Call (Upload [''Post/c.png'']), Call (Get_Url ''Post/c.png'')]
           demo_world))))
     (kv_abs demo_gateway (snd (gw_run demo_gateway
        [Stage ''Post/c.png'' [9], Call (Upload [''Post/c.png'']), Call (Get_Url ''Post/c.png'')]
        demo_world)))"
  by (rule gw_run_refines_kv [OF demo_facts(1) demo_healthy])

theorem upload_then_get_url_serves_witness:
  "\<exists>u. fst (gw_run demo_gateway [Call (Upload [''Post/a.png'']), Call (Get_Url ''Post/a.png'')] demo_world)
          = [Reply_Bool (Inr (Some True)), Reply_Url (Inr (Some u))]
      \<and> (\<forall>t. presigned_get (w_backend (snd (gw_run demo_gateway
               [Call (Upload [''Post/a.png'']), Call (Get_Url ''Post/a.png'')] demo_world))) t u
             = (if t < 1000 + 3600 then Some [1, 2, 3] else None))"
proof -
  have st: "staged_of (w_fs demo_world) ''Post/a.png'' = Some [1, 2, 3]"
    by (simp add: staged_of_def staging_path_def demo_world_def)
  show ?thesis
    using upload_then_get_url_serves [OF demo_facts(1) demo_healthy st] by (simp add: demo_world_def)
qed

end
