(* ===== verification/Filename.thy ===== *)
theory Filename
  imports Prelude
begin

text \<open>
  The module-level helper \<open>generate_image_filename(instance, filename)\<close> of
  \<open>src/s3_minio.py\<close> (lines 177--198) with its inner \<open>get_valid_filename\<close>.
  A Django model instance is modelled by what the helper reads of it: its class
  name and its \<open>created_at\<close> datetime.  \<open>random.randint(1000, 9999)\<close> is an
  argument of the model (\<open>random_number\<close>); its range is the hypothesis
  \<open>randint_range\<close> where a theorem needs it.  \<open>datetime.strftime\<close> is modelled for
  the directives the helper's format uses, as CPython on glibc renders them:
  \<open>%f\<close> is expanded by Python (microseconds), the others by the C library, where
  \<open>%F\<close> is the ISO date \<open>%Y-%m-%d\<close>.
\<close>

record datetime =
  dt_year :: nat
  dt_month :: nat
  dt_day :: nat
  dt_hour :: nat
  dt_minute :: nat
  dt_second :: nat
  dt_microsecond :: nat

record model_instance =
  inst_class_name :: string
  inst_created_at :: datetime

definition randint_range :: "nat \<Rightarrow> bool" where
  "randint_range r \<longleftrightarrow> 1000 \<le> r \<and> r \<le> 9999"

subsection \<open>strftime\<close>

definition iso_date :: "datetime \<Rightarrow> string" where
  "iso_date d = nat_str (dt_year d) @ ''-'' @ zpad 2 (dt_month d) @ ''-'' @ zpad 2 (dt_day d)"

definition strftime_directive :: "datetime \<Rightarrow> char \<Rightarrow> string" where
  "strftime_directive d c =
     (if c = CHR ''Y'' then nat_str (dt_year d)
      else if c = CHR ''m'' then zpad 2 (dt_month d)
      else if c = CHR ''d'' then zpad 2 (dt_day d)
      else if c = CHR ''H'' then zpad 2 (dt_hour d)
      else if c = CHR ''M'' then zpad 2 (dt_minute d)
      else if c = CHR ''S'' then zpad 2 (dt_second d)
      else if c = CHR ''f'' then zpad 6 (dt_microsecond d)
      else if c = CHR ''F'' then iso_date d
      else if c = CHR ''%'' then ''%''
      else [CHR ''%'', c])"

fun strftime :: "datetime \<Rightarrow> string \<Rightarrow> string" where
  "strftime d [] = []"
| "strftime d [c] = [c]"
| "strftime d (c # c' # cs) =
     (if c = CHR ''%'' then strftime_directive d c' @ strftime d cs
      else c # strftime d (c' # cs))"

declare strftime.simps [simp del]

subsection \<open>get\_valid\_filename and generate\_image\_filename\<close>

text \<open>The character class \<open>[A-Za-z0-9._-]\<close> of the regular expression.\<close>

definition valid_filename_char :: "char \<Rightarrow> bool" where
  "valid_filename_char c =
     (let n = of_char c :: nat
      in (65 \<le> n \<and> n \<le> 90) \<or> (97 \<le> n \<and> n \<le> 122) \<or> (48 \<le> n \<and> n \<le> 57)
         \<or> n = 46 \<or> n = 95 \<or> n = 45)"

text \<open>\<open>str(filename).strip().replace(' ', '_')\<close>, then
  \<open>re.sub(r'[^A-Za-z0-9._-]', '', filename)\<close>.\<close>

definition get_valid_filename :: "string \<Rightarrow> string" where
  "get_valid_filename filename =
     filter valid_filename_char (py_replace '' '' ''_'' (py_strip filename))"

definition generate_image_filename :: "model_instance \<Rightarrow> nat \<Rightarrow> string \<Rightarrow> string" where
  "generate_image_filename instance random_number filename =
     (let file_ext = last (py_split CHR ''.'' filename);
          class_name = inst_class_name instance;
          timestamped_name = strftime (inst_created_at instance) ''%Y-%m-%d-%H-%M-%S-%F'';
          valid_filename = get_valid_filename
                             (timestamped_name @ ''-'' @ nat_str random_number @ ''.'' @ file_ext)
      in class_name @ ''/'' @ timestamped_name @ ''/'' @ valid_filename)"

subsection \<open>A concrete instance used by the witnesses\<close>

definition demo_post :: model_instance where
  "demo_post = \<lparr>inst_class_name = ''Post'', inst_created_at = \<lparr>dt_year = 2024, dt_month = 1, dt_day = 2,
        dt_hour = 3, dt_minute = 4, dt_second = 5, dt_microsecond = 678\<rparr>\<rparr>"

subsection \<open>Properties\<close>

lemma strftime_image_format:
  "strftime d ''%Y-%m-%d-%H-%M-%S-%F'' =
     py_join ''-'' [nat_str (dt_year d), zpad 2 (dt_month d), zpad 2 (dt_day d),
       zpad 2 (dt_hour d), zpad 2 (dt_minute d), zpad 2 (dt_second d),
       nat_str (dt_year d), zpad 2 (dt_month d), zpad 2 (dt_day d)]"
  by (simp add: strftime.simps strftime_directive_def iso_date_def)

lemma ascii_digit_valid: "ascii_digit c \<Longrightarrow> valid_filename_char c \<and> \<not> py_isspace c \<and> c \<noteq> CHR ''/''
    \<and> c \<noteq> CHR ''-'' \<and> c \<noteq> CHR '' ''"
  by (auto simp: ascii_digit_def valid_filename_char_def py_isspace_def)

lemma valid_filename_char_punct: "valid_filename_char CHR ''-'' \<and> valid_filename_char CHR ''.''"
  by (simp add: valid_filename_char_def)

lemma stamp_chars:
  "\<forall>c \<in> set (strftime d ''%Y-%m-%d-%H-%M-%S-%F''). ascii_digit c \<or> c = CHR ''-''"
  unfolding strftime_image_format using nat_str_digits zpad_digits by auto

lemma stamp_hd:
  "strftime d ''%Y-%m-%d-%H-%M-%S-%F'' \<noteq> [] \<and> ascii_digit (hd (strftime d ''%Y-%m-%d-%H-%M-%S-%F''))"
proof -
  obtain c cs where "nat_str (dt_year d) = c # cs" using nat_str_ne by (cases "nat_str (dt_year d)") auto
  moreover have "ascii_digit c" using nat_str_digits [of "dt_year d"] calculation by auto
  ultimately show ?thesis by (simp only: strftime_image_format) simp
qed

text \<open>The sanitiser leaves a prefix of digits, dashes and dots alone and only
  right-strips what follows it.\<close>

lemma get_valid_filename_prefix:
  assumes chars: "\<forall>c \<in> set p. ascii_digit c \<or> c = CHR ''-'' \<or> c = CHR ''.''"
    and ne: "p \<noteq> []" and hd: "ascii_digit (hd p)" and lst: "last p = CHR ''.''"
  shows "get_valid_filename (p @ e) = p @ filter valid_filename_char (py_replace '' '' ''_'' (py_rstrip_ws e))"
proof -
  have h1: "\<not> py_isspace (hd p)" using hd ascii_digit_valid by blast
  have h2: "\<not> py_isspace (last p)" using lst by (simp add: py_isspace_def)
  have st: "py_strip (p @ e) = p @ py_rstrip_ws e" using py_strip_append [OF ne h1 h2] .
  have pc: "valid_filename_char c \<and> c \<noteq> CHR '' ''" if "c \<in> set p" for c
  proof -
    have "ascii_digit c \<or> c = CHR ''-'' \<or> c = CHR ''.''" using chars that by blast
    then show ?thesis using ascii_digit_valid valid_filename_char_punct by auto
  qed
  have "map (\<lambda>c. if c = CHR '' '' then CHR ''_'' else c) p = p"
    by (rule map_idI) (simp add: pc)
  moreover have "filter valid_filename_char p = p"
    using pc by (simp add: filter_id_conv)
  ultimately show ?thesis by (simp add: get_valid_filename_def py_replace_single st)
qed

lemma generate_image_filename_unfold:
  "generate_image_filename instance r filename =
     inst_class_name instance @ ''/'' @ strftime (inst_created_at instance) ''%Y-%m-%d-%H-%M-%S-%F''
     @ ''/'' @ strftime (inst_created_at instance) ''%Y-%m-%d-%H-%M-%S-%F'' @ ''-'' @ nat_str r @ ''.''
     @ filter valid_filename_char (py_replace '' '' ''_'' (py_rstrip_ws (last (py_split CHR ''.'' filename))))"
proof -
  let ?t = "strftime (inst_created_at instance) ''%Y-%m-%d-%H-%M-%S-%F''"
  let ?p = "?t @ ''-'' @ nat_str r @ ''.''"
  have "\<forall>c \<in> set ?p. ascii_digit c \<or> c = CHR ''-'' \<or> c = CHR ''.''"
    using stamp_chars nat_str_digits by auto
  moreover have "?p \<noteq> [] \<and> ascii_digit (hd ?p)" using stamp_hd by simp
  moreover have "last ?p = CHR ''.''" by simp
  ultimately have "get_valid_filename (?p @ last (py_split CHR ''.'' filename)) =
     ?p @ filter valid_filename_char (py_replace '' '' ''_'' (py_rstrip_ws (last (py_split CHR ''.'' filename))))"
    by (intro get_valid_filename_prefix) auto
  then show ?thesis by (simp add: generate_image_filename_def Let_def)
qed

text \<open>C15. The last path segment of every key \<open>generate_image_filename\<close> returns consists
  only of characters of \<open>[A-Za-z0-9._-]\<close>, whatever the original filename.\<close>

theorem generate_image_filename_last_segment_safe:
  "list_all valid_filename_char (last (py_split CHR ''/'' (generate_image_filename instance r filename)))"
proof -
  let ?v = "get_valid_filename (strftime (inst_created_at instance) ''%Y-%m-%d-%H-%M-%S-%F''
              @ ''-'' @ nat_str r @ ''.'' @ last (py_split CHR ''.'' filename))"
  have v: "list_all valid_filename_char ?v" by (simp add: get_valid_filename_def list_all_iff)
  then have "CHR ''/'' \<notin> set ?v" by (auto simp: list_all_iff valid_filename_char_def)
  then have "last (py_split CHR ''/'' (generate_image_filename instance r filename)) = ?v"
    using last_py_split_append [of "CHR ''/''" ?v
            "inst_class_name instance @ ''/'' @ strftime (inst_created_at instance) ''%Y-%m-%d-%H-%M-%S-%F''"]
    by (simp add: generate_image_filename_def Let_def)
  then show ?thesis using v by simp
qed

text \<open>C17. The key does not depend on the microseconds of the creation time: two images
  of the same class created within the same second with the same random number get
  the same key.\<close>

theorem generate_image_filename_ignores_microseconds:
  "generate_image_filename (instance\<lparr>inst_created_at := (inst_created_at instance)\<lparr>dt_microsecond := u\<rparr>\<rparr>) r filename
     = generate_image_filename instance r filename"
  unfolding generate_image_filename_def strftime_image_format by simp

text \<open>C16. The key is \<open><class>/<stamp>/<stamp>-<random>.<ext>\<close>, where the stamp is
  year, month, day, hour, minute, second, year, month, day joined by dashes (the
  directive \<open>%F\<close> repeats the date), and the extension is the text after the last dot,
  right-stripped, with spaces turned into underscores and other characters outside
  \<open>[A-Za-z0-9._-]\<close> removed.\<close>

theorem generate_image_filename_layout:
  "generate_image_filename instance r filename =
     (let d = inst_created_at instance;
          stamp = py_join ''-'' [nat_str (dt_year d), zpad 2 (dt_month d), zpad 2 (dt_day d),
                    zpad 2 (dt_hour d), zpad 2 (dt_minute d), zpad 2 (dt_second d),
                    nat_str (dt_year d), zpad 2 (dt_month d), zpad 2 (dt_day d)]
      in inst_class_name instance @ ''/'' @ stamp @ ''/'' @ stamp @ ''-'' @ nat_str r @ ''.''
         @ filter valid_filename_char (py_replace '' '' ''_'' (py_rstrip_ws (last (py_split CHR ''.'' filename)))))"
  by (simp only: generate_image_filename_unfold strftime_image_format Let_def)

lemma stamp_no_slash: "CHR ''/'' \<notin> set (strftime d ''%Y-%m-%d-%H-%M-%S-%F'')"
  using stamp_chars [of d] ascii_digit_valid by blast

lemma stamp_fields:
  "map digits_value (take 6 (py_split CHR ''-'' (strftime d ''%Y-%m-%d-%H-%M-%S-%F''))) =
     [dt_year d, dt_month d, dt_day d, dt_hour d, dt_minute d, dt_second d]"
proof -
  let ?fs = "[nat_str (dt_year d), zpad 2 (dt_month d), zpad 2 (dt_day d),
                    zpad 2 (dt_hour d), zpad 2 (dt_minute d), zpad 2 (dt_second d),
                    nat_str (dt_year d), zpad 2 (dt_month d), zpad 2 (dt_day d)]"
  have "\<forall>x \<in> set ?fs. CHR ''-'' \<notin> set x"
    using nat_str_digits zpad_digits ascii_digit_valid by fastforce
  then have "py_split CHR ''-'' (py_join ''-'' ?fs) = ?fs" by (intro py_split_join) simp_all
  then show ?thesis by (simp add: strftime_image_format digits_value_nat_str digits_value_zpad)
qed

text \<open>C18. When the class name has no slash, the key splits back on \<open>/\<close> into the class
  name and the stamp, and the stamp's first six dash-separated fields read back as the
  creation time's year, month, day, hour, minute and second.\<close>

theorem generate_image_filename_roundtrip:
  assumes "CHR ''/'' \<notin> set (inst_class_name instance)"
  shows "py_split CHR ''/'' (generate_image_filename instance r filename) ! 0 = inst_class_name instance
       \<and> map digits_value (take 6 (py_split CHR ''-''
              (py_split CHR ''/'' (generate_image_filename instance r filename) ! 1)))
           = [dt_year (inst_created_at instance), dt_month (inst_created_at instance),
              dt_day (inst_created_at instance), dt_hour (inst_created_at instance),
              dt_minute (inst_created_at instance), dt_second (inst_created_at instance)]"
proof -
  let ?t = "strftime (inst_created_at instance) ''%Y-%m-%d-%H-%M-%S-%F''"
  let ?v = "get_valid_filename (?t @ ''-'' @ nat_str r @ ''.'' @ last (py_split CHR ''.'' filename))"
  have v: "CHR ''/'' \<notin> set ?v" by (auto simp: get_valid_filename_def valid_filename_char_def)
  have "generate_image_filename instance r filename = py_join ''/'' [inst_class_name instance, ?t, ?v]"
    by (simp add: generate_image_filename_def Let_def)
  moreover have "py_split CHR ''/'' (py_join ''/'' [inst_class_name instance, ?t, ?v])
                   = [inst_class_name instance, ?t, ?v]"
    using assms stamp_no_slash v by (intro py_split_join) auto
  ultimately show ?thesis by (simp add: stamp_fields)
qed

theorem generate_image_filename_roundtrip_witness:
  "map digits_value (take 6 (py_split CHR ''-''
      (py_split CHR ''/'' (generate_image_filename demo_post 1234 ''My Photo #1.JPG'') ! 1)))
     = [2024, 1, 2, 3, 4, 5]"
  using generate_image_filename_roundtrip [of demo_post 1234 "''My Photo #1.JPG''"]
  by (simp add: demo_post_def)

end
