(* ===== verification/Converter.thy ===== *)
theory Converter
  imports Prelude
begin

text \<open>
  \<open>S3Minio.webp_converter(*args)\<close> of \<open>src/s3_minio.py\<close> (lines 140--174): the
  Django import probe, the re-encoding of the first image and the renaming of its
  extension.  The image library is a parameter: \<open>codec\<close> stands for
  \<open>Image.open(image).convert("RGB").save(buffer, "WEBP", quality=75)\<close>, a
  function from the uploaded bytes to the encoded bytes or an exception, and
  \<open>django_available\<close> for whether \<open>django.core.files.base\<close> can be imported.
  An uploaded file is what the method reads and writes of it: its bytes and its
  \<open>name\<close>, which Django allows to be \<open>None\<close>.  The method mutates
  \<open>image.name\<close>; the model returns the argument list after the call.
\<close>

record image_file =
  img_name :: "string option"
  img_data :: bytes

datatype content_file = ContentFile bytes

type_synonym codec = "bytes \<Rightarrow> py_exc + bytes"

definition webp_extensions :: "string list" where
  "webp_extensions = [''.jpg'', ''.jpeg'', ''.png'', ''.svg'', ''.gif'']"

text \<open>The inner loop over the extensions: the first one that occurs anywhere in the
  name is replaced, every occurrence of it, and the loop breaks.\<close>

fun rename_ext :: "string list \<Rightarrow> string \<Rightarrow> string" where
  "rename_ext [] name = name"
| "rename_ext (e # es) name =
     (if py_contains e name then py_replace e ''.webp'' name else rename_ext es name)"

text \<open>\<open>e in image.name\<close> raises \<open>TypeError\<close> when the name is \<open>None\<close>; the
  inner handler turns it into a \<open>ValueError\<close>.\<close>

definition rename_image :: "string option \<Rightarrow> py_exc + string" where
  "rename_image name =
     (case name of
        None \<Rightarrow> Inl (Value_Error
                  ''Converter Error (Exclusive to Django models) | pip install django django-storages''
                  (Type_Error ''argument of type 'NoneType' is not iterable''))
      | Some n \<Rightarrow> Inr (rename_ext webp_extensions n))"

text \<open>The \<open>return\<close> sits inside the loop over \<open>args\<close>: only the first image is
  converted; with no image the method returns \<open>None\<close>.  Every exception of the
  body is wrapped by the outer handler.\<close>

definition webp_converter ::
  "bool \<Rightarrow> codec \<Rightarrow> image_file list \<Rightarrow> py_exc + (content_file option \<times> image_file list)" where
  "webp_converter django_available codec args =
     (if \<not> django_available
      then Inl (Import_Error
                  ''Convert Error (Exclusive to Django models) | pip install django django-storages''
                  (Module_Not_Found ''django''))
      else case args of
        [] \<Rightarrow> Inr (None, args)
      | img # rest \<Rightarrow>
          (case codec (img_data img) of
             Inl exc \<Rightarrow>
               Inl (Value_Error ''Converter Error (Exclusive to Django models) | pip install django'' exc)
           | Inr buffer \<Rightarrow>
               (case rename_image (img_name img) of
                  Inl exc \<Rightarrow>
                    Inl (Value_Error ''Converter Error (Exclusive to Django models) | pip install django'' exc)
                | Inr name \<Rightarrow> Inr (Some (ContentFile buffer), img\<lparr>img_name := Some name\<rparr> # rest))))"

subsection \<open>A codec used by the witnesses\<close>

text \<open>Fails on empty input, as \<open>Image.open\<close> fails on data it cannot identify.\<close>

definition demo_codec :: codec where
  "demo_codec b = (if b = [] then Inl (Codec_Error ''cannot identify image file'') else Inr (rev b))"

subsection \<open>Properties\<close>

lemma sublist_sep_split:
  assumes "c \<notin> set x"
  shows "sublist (c # x) (s @ c # e) \<longleftrightarrow> sublist (c # x) s \<or> sublist (c # x) (c # e)"
proof
  assume "sublist (c # x) (s @ c # e)"
  then consider "sublist (c # x) s" | "sublist (c # x) (c # e)"
    | (mid) xs1 xs2 where "c # x = xs1 @ xs2" "suffix xs1 s" "prefix xs2 (c # e)"
    by (auto simp: sublist_append)
  then show "sublist (c # x) s \<or> sublist (c # x) (c # e)"
  proof cases
    case mid
    show ?thesis
    proof (cases "xs1 = [] \<or> xs2 = []")
      case True
      then show ?thesis using mid by (auto intro: prefix_imp_sublist suffix_imp_sublist)
    next
      case False
      then obtain t u where "xs1 = c # t" "xs2 = c # u"
        using mid by (cases xs1; cases xs2) auto
      then have "c \<in> set x" using mid(1) by simp
      then show ?thesis using assms by simp
    qed
  qed simp_all
next
  assume "sublist (c # x) s \<or> sublist (c # x) (c # e)"
  then show "sublist (c # x) (s @ c # e)"
  proof
    assume "sublist (c # x) s"
    then obtain p q where "s = p @ (c # x) @ q" by (auto simp: sublist_def)
    then show ?thesis unfolding sublist_def by (intro exI [of _ p] exI [of _ "q @ c # e"]) simp
  next
    assume "sublist (c # x) (c # e)"
    then obtain p q where "c # e = p @ (c # x) @ q" by (auto simp: sublist_def)
    then show ?thesis unfolding sublist_def by (intro exI [of _ "s @ p"] exI [of _ q]) simp
  qed
qed

lemma py_replace_ne_mid:
  assumes e: "e = c # e'" "c \<notin> set e'" and s: "\<not> sublist e s"
  shows "py_replace_ne e r (s @ e @ t) = s @ r @ py_replace_ne e r t"
  using s
proof (induction s)
  case Nil
  then show ?case using e by simp
next
  case (Cons a s')
  have np: "\<not> prefix e (a # s' @ e @ t)"
  proof
    assume "prefix e (a # s' @ e @ t)"
    then have "prefix e ((a # s') @ e @ t)" by simp
    then consider "prefix e (a # s')" | us where "e = (a # s') @ us" "prefix us (e @ t)"
      using prefix_append [of e "a # s'" "e @ t"] by blast
    then show False
    proof cases
      case 1
      then show False using Cons.prems by (auto dest: prefix_imp_sublist)
    next
      case 2
      show False
      proof (cases us)
        case Nil
        then show False using 2 Cons.prems by simp
      next
        case (Cons u us')
        then have "u = c" using 2(2) e by simp
        then show False using 2(1) e Cons by auto
      qed
    qed
  qed
  have "\<not> sublist e s'" using Cons.prems by (auto simp: sublist_Cons_right)
  then show ?case using Cons.IH np by simp
qed

lemma rename_ext_suffix:
  assumes "e \<in> set es"
    and dots: "\<forall>x \<in> set es. \<exists>x'. x = CHR ''.'' # x' \<and> CHR ''.'' \<notin> set x'"
    and distinct_ext: "\<forall>x \<in> set es. x \<noteq> e \<longrightarrow> \<not> sublist x e"
    and stem: "\<forall>x \<in> set es. \<not> sublist x stem"
  shows "rename_ext es (stem @ e) = stem @ ''.webp''"
  using assms
proof (induction es)
  case (Cons x es)
  obtain x' where x: "x = CHR ''.'' # x'" "CHR ''.'' \<notin> set x'" using Cons.prems(2) by auto
  obtain e' where e: "e = CHR ''.'' # e'" "CHR ''.'' \<notin> set e'" using Cons.prems(1,2) by auto
  show ?case
  proof (cases "x = e")
    case True
    have "\<not> sublist e stem" using Cons.prems(4) True by simp
    then have "py_replace_ne e ''.webp'' (stem @ e) = stem @ ''.webp''"
      using py_replace_ne_mid [OF e, of stem "''.webp''" "[]"] by simp
    then show ?thesis using True e by (simp add: py_contains_sublist py_replace_def)
  next
    case False
    have "\<not> sublist x (stem @ e)"
      using sublist_sep_split [OF x(2), of stem e'] x e Cons.prems(3,4) False by auto
    moreover have "e \<in> set es" using Cons.prems(1) False by simp
    ultimately show ?thesis using Cons by (simp add: py_contains_sublist)
  qed
qed simp

lemma webp_extensions_shape:
  "\<forall>x \<in> set webp_extensions. \<exists>x'. x = CHR ''.'' # x' \<and> CHR ''.'' \<notin> set x'"
  "\<forall>x \<in> set webp_extensions. \<forall>e \<in> set webp_extensions. x \<noteq> e \<longrightarrow> \<not> sublist x e"
  by (simp_all add: webp_extensions_def py_contains_sublist [symmetric])

lemma rename_webp_suffix:
  assumes "e \<in> set webp_extensions" and "list_all (\<lambda>x. \<not> py_contains x stem) webp_extensions"
  shows "rename_ext webp_extensions (stem @ e) = stem @ ''.webp''"
  using assms webp_extensions_shape
  by (intro rename_ext_suffix) (auto simp: list_all_iff py_contains_sublist)

lemma rename_ext_untouched:
  "list_all (\<lambda>x. \<not> py_contains x n) es \<Longrightarrow> rename_ext es n = n"
  by (induction es) auto

lemma rename_ext_inner:
  assumes e: "e \<in> set [''.jpg'', ''.jpeg'', ''.png'', ''.svg'']"
    and split: "\<And>x. x \<in> set webp_extensions \<Longrightarrow>
                  py_contains x (stem @ e @ ''.gif'') \<longleftrightarrow> sublist x (e @ ''.gif'')"
  shows "rename_ext webp_extensions (stem @ e @ ''.gif'') = py_replace e ''.webp'' (stem @ e @ ''.gif'')"
  using e split [of "''.jpg''"] split [of "''.jpeg''"] split [of "''.png''"] split [of "''.svg''"]
  by (auto simp: webp_extensions_def sublist_Cons_right simp del: py_contains_sublist)

lemma gif_kept: "e \<in> set [''.jpg'', ''.jpeg'', ''.png'', ''.svg''] \<Longrightarrow> py_replace_ne e ''.webp'' ''.gif'' = ''.gif''"
  by auto

text \<open>C19. When the image's name is a stem followed by one of \<open>.jpg .jpeg .png .svg .gif\<close>
  and the stem contains none of them, and the codec encodes the bytes, the converter
  returns the encoded bytes and renames the image to the stem followed by \<open>.webp\<close>;
  later images are returned untouched.\<close>

theorem webp_converter_renames_extension:
  assumes ext: "e \<in> set webp_extensions" and stem: "list_all (\<lambda>x. \<not> py_contains x stem) webp_extensions"
    and enc: "codec (img_data img) = Inr buf" and name: "img_name img = Some (stem @ e)"
  shows "webp_converter True codec (img # rest) =
           Inr (Some (ContentFile buf), img\<lparr>img_name := Some (stem @ ''.webp'')\<rparr> # rest)"
  using rename_webp_suffix [OF ext stem] enc name
  by (simp add: webp_converter_def rename_image_def)

text \<open>C20. A name containing none of the listed lowercase extensions (for instance
  \<open>PHOTO.JPG\<close>) is left unchanged although the returned content is WEBP.\<close>

theorem webp_converter_keeps_unlisted_names:
  assumes "list_all (\<lambda>x. \<not> py_contains x n) webp_extensions"
    and "codec (img_data img) = Inr buf" and "img_name img = Some n"
  shows "webp_converter True codec (img # rest) = Inr (Some (ContentFile buf), img # rest)"
  using assms rename_ext_untouched [OF assms(1)]
  by (simp add: webp_converter_def rename_image_def)

text \<open>C21. Extensions are matched as substrings and replaced wherever they occur, not
  as suffixes: for every stem free of the listed extensions, the name stem, then one of
  \<open>.jpg .jpeg .png .svg\<close>, then \<open>.gif\<close> becomes stem followed by \<open>.webp.gif\<close>,
  which still ends in \<open>.gif\<close> although the content is WEBP.\<close>

theorem webp_converter_inner_extension:
  assumes e: "e \<in> set [''.jpg'', ''.jpeg'', ''.png'', ''.svg'']"
    and stem: "list_all (\<lambda>x. \<not> py_contains x stem) webp_extensions"
    and enc: "codec (img_data img) = Inr buf" and name: "img_name img = Some (stem @ e @ ''.gif'')"
  shows "webp_converter True codec (img # rest) =
           Inr (Some (ContentFile buf), img\<lparr>img_name := Some (stem @ ''.webp.gif'')\<rparr> # rest)"
proof -
  have ew: "e \<in> set webp_extensions" using e by (auto simp: webp_extensions_def)
  obtain e' where e': "e = CHR ''.'' # e'" "CHR ''.'' \<notin> set e'"
    using bspec [OF webp_extensions_shape(1) ew] by blast
  have split: "py_contains x (stem @ e @ ''.gif'') \<longleftrightarrow> sublist x (e @ ''.gif'')"
    if xs: "x \<in> set webp_extensions" for x
  proof -
    obtain x' where x: "x = CHR ''.'' # x'" "CHR ''.'' \<notin> set x'"
      using bspec [OF webp_extensions_shape(1) xs] by blast
    have "\<not> sublist x stem" using stem xs by (simp add: list_all_iff py_contains_sublist)
    then show ?thesis
      using sublist_sep_split [OF x(2), of stem "e' @ ''.gif''"] x e'(1) by (simp add: py_contains_sublist)
  qed
  have "\<not> sublist e stem" using stem ew by (simp add: list_all_iff py_contains_sublist)
  then have "py_replace e ''.webp'' (stem @ e @ ''.gif'') = stem @ ''.webp'' @ py_replace_ne e ''.webp'' ''.gif''"
    using py_replace_ne_mid [OF e'] e'(1) by (simp add: py_replace_def)
  then have "rename_ext webp_extensions (stem @ e @ ''.gif'') = stem @ ''.webp.gif''"
    using rename_ext_inner [OF e split] gif_kept [OF e] by simp
  then show ?thesis using enc name by (simp add: webp_converter_def rename_image_def)
qed

text \<open>C22. The converter raises exactly in three cases: Django is missing
  (\<open>ImportError\<close> from \<open>ModuleNotFoundError\<close>), the codec fails (\<open>ValueError\<close>
  wrapping it), or the name is \<open>None\<close> (\<open>ValueError\<close> wrapping the inner
  \<open>ValueError\<close> wrapping \<open>TypeError\<close>).\<close>

theorem webp_converter_errors:
  "webp_converter django codec (img # rest) = Inl exc \<longleftrightarrow>
     (\<not> django \<and> exc = Import_Error
          ''Convert Error (Exclusive to Django models) | pip install django django-storages''
          (Module_Not_Found ''django''))
   \<or> (django \<and> (\<exists>e. codec (img_data img) = Inl e
          \<and> exc = Value_Error ''Converter Error (Exclusive to Django models) | pip install django'' e))
   \<or> (django \<and> (\<exists>b. codec (img_data img) = Inr b) \<and> img_name img = None
          \<and> exc = Value_Error ''Converter Error (Exclusive to Django models) | pip install django''
                (Value_Error ''Converter Error (Exclusive to Django models) | pip install django django-storages''
                   (Type_Error ''argument of type 'NoneType' is not iterable'')))"
  by (auto simp: webp_converter_def rename_image_def split: sum.splits option.splits)

text \<open>C23. The converter returns after the first image: on success the images after the
  first are returned unchanged and the content is the codec's output for the first.\<close>

theorem webp_converter_first_only:
  assumes "webp_converter django codec (img # rest) = Inr (c, out)"
  shows "tl out = rest \<and> (\<exists>b. codec (img_data img) = Inr b \<and> c = Some (ContentFile b))"
  using assms
  by (auto simp: webp_converter_def rename_image_def split: if_splits sum.splits option.splits)

theorem webp_converter_renames_extension_witness:
  "webp_converter True demo_codec [\<lparr>img_name = Some ''cat.jpeg'', img_data = [1, 2]\<rparr>] =
     Inr (Some (ContentFile [2, 1]), [\<lparr>img_name = Some ''cat.webp'', img_data = [1, 2]\<rparr>])"
proof -
  let ?img = "\<lparr>img_name = Some ''cat.jpeg'', img_data = [1, 2]\<rparr>"
  have h1: "''.jpeg'' \<in> set webp_extensions"
    and h2: "list_all (\<lambda>x. \<not> py_contains x ''cat'') webp_extensions"
    and h3: "demo_codec (img_data ?img) = Inr [2, 1]"
    and h4: "img_name ?img = Some (''cat'' @ ''.jpeg'')"
    by (simp_all add: webp_extensions_def demo_codec_def)
  have "webp_converter True demo_codec [?img] =
          Inr (Some (ContentFile [2, 1]), ?img\<lparr>img_name := Some (''cat'' @ ''.webp'')\<rparr> # [])"
    by (rule webp_converter_renames_extension
          [where e = "''.jpeg''" and stem = "''cat''" and img = ?img and rest = "[]" and codec = demo_codec and buf = "[2, 1]", OF h1 h2 h3 h4])
  then show ?thesis by simp
qed

theorem webp_converter_keeps_unlisted_names_witness:
  "webp_converter True demo_codec [\<lparr>img_name = Some ''PHOTO.JPG'', img_data = [5]\<rparr>] =
     Inr (Some (ContentFile [5]), [\<lparr>img_name = Some ''PHOTO.JPG'', img_data = [5]\<rparr>])"
proof -
  let ?img = "\<lparr>img_name = Some ''PHOTO.JPG'', img_data = [5]\<rparr>"
  have h1: "list_all (\<lambda>x. \<not> py_contains x ''PHOTO.JPG'') webp_extensions"
    and h2: "demo_codec (img_data ?img) = Inr [5]"
    and h3: "img_name ?img = Some ''PHOTO.JPG''"
    by (simp_all add: webp_extensions_def demo_codec_def)
  show ?thesis
    by (rule webp_converter_keeps_unlisted_names
          [where n = "''PHOTO.JPG''" and img = ?img and rest = "[]" and codec = demo_codec and buf = "[5]", OF h1 h2 h3])
qed

theorem webp_converter_errors_witness:
  "webp_converter True demo_codec [\<lparr>img_name = None, img_data = [1]\<rparr>] =
     Inl (Value_Error ''Converter Error (Exclusive to Django models) | pip install django''
                (Value_Error ''Converter Error (Exclusive to Django models) | pip install django django-storages''
                   (Type_Error ''argument of type 'NoneType' is not iterable'')))"
  using webp_converter_errors [of True demo_codec "\<lparr>img_name = None, img_data = [1]\<rparr>" "[]"]
  by (simp add: demo_codec_def)

theorem webp_converter_first_only_witness:
  "\<exists>out. webp_converter True demo_codec
      [\<lparr>img_name = Some ''a.png'', img_data = [1]\<rparr>, \<lparr>img_name = Some ''b.png'', img_data = [2]\<rparr>]
        = Inr (Some (ContentFile [1]), out)
      \<and> tl out = [\<lparr>img_name = Some ''b.png'', img_data = [2]\<rparr>]"
proof -
  obtain out where o: "webp_converter True demo_codec
      [\<lparr>img_name = Some ''a.png'', img_data = [1]\<rparr>, \<lparr>img_name = Some ''b.png'', img_data = [2]\<rparr>]
        = Inr (Some (ContentFile [1]), out)"
    by (simp add: webp_converter_def rename_image_def demo_codec_def)
  then show ?thesis using webp_converter_first_only [OF o] by blast
qed

theorem webp_converter_inner_extension_witness:
  "webp_converter True demo_codec [\<lparr>img_name = Some ''photo.png.gif'', img_data = [1, 2]\<rparr>] =
     Inr (Some (ContentFile [2, 1]), [\<lparr>img_name = Some ''photo.webp.gif'', img_data = [1, 2]\<rparr>])"
proof -
  let ?img = "\<lparr>img_name = Some ''photo.png.gif'', img_data = [1, 2]\<rparr>"
  have h1: "''.png'' \<in> set [''.jpg'', ''.jpeg'', ''.png'', ''.svg'']" by simp
  have h2: "list_all (\<lambda>x. \<not> py_contains x ''photo'') webp_extensions"
    by (simp add: webp_extensions_def)
  have h3: "demo_codec (img_data ?img) = Inr [2, 1]" by (simp add: demo_codec_def)
  have h4: "img_name ?img = Some (''photo'' @ ''.png'' @ ''.gif'')" by simp
  have "webp_converter True demo_codec [?img] =
          Inr (Some (ContentFile [2, 1]), ?img\<lparr>img_name := Some (''photo'' @ ''.webp.gif'')\<rparr> # [])"
    by (rule webp_converter_inner_extension
          [where e = "''.png''" and stem = "''photo''" and img = ?img and rest = "[]" and codec = demo_codec and buf = "[2, 1]", OF h1 h2 h3 h4])
  then show ?thesis by simp
qed

end
