(* ===== verification/Spec2Isabelle.thy ===== *)
theory Spec2Isabelle
  imports System Filename Converter
begin

text \<open>
  \<^bold>\<open>A verification model of django-S3Minio (\<open>src/s3_minio.py\<close>).\<close>

  \<^bold>\<open>The program.\<close> One Python module.  The class \<open>S3Minio\<close> wraps a boto3 S3
  client and a bucket name: \<open>__init__\<close> builds the client (and prints its
  arguments), \<open>upload\<close> sends staged files \<open>temp/media/<key>\<close> to the bucket and
  removes them (and their directory when it becomes empty), \<open>delete\<close> deletes
  objects, \<open>get_url\<close> probes an object with \<open>head_object\<close> and returns a
  presigned GET URL valid for 3600 seconds, or \<open>None\<close>.  Two Django helpers sit
  beside it: \<open>webp_converter\<close> re-encodes an image and renames it, and the
  module-level \<open>generate_image_filename\<close> builds the storage key of an image.

  \<^bold>\<open>The library.\<close>
  \<^item> \<open>Prelude\<close>: bytes as \<open>8 word list\<close>, the exception values
    (\<open>py_exc\<close>: \<open>ValueError\<close> with its cause, \<open>OSError\<close> kinds, botocore's
    \<open>ClientError\<close>, \<open>EndpointConnectionError\<close>, \<open>S3UploadFailedError\<close>), and the
    Python string operations the module calls (\<open>in\<close>, \<open>str.replace\<close>,
    \<open>str.strip\<close>, \<open>str.split\<close>, \<open>posixpath.dirname\<close>, \<open>str(int)\<close>), on code
    points below 256, with their characteristic lemmas.
  \<^item> \<open>Environment\<close>: the world the handlers act on, as a record \<open>world\<close>: the
    local file system (an association list of normalised paths to files and
    directories, with the invariant \<open>fs_wf\<close>: distinct normal paths, every entry
    under a directory of the file system), the S3 backend (endpoint, online flag,
    credentials, buckets as maps from keys to bytes), a clock and standard output.
    The boto3 calls are functions of the world returning \<open>py_exc + _\<close>, from the
    S3 and boto3 documentation: \<open>upload_file\<close> reads the local file first,
    \<open>delete_object\<close> is idempotent, \<open>head_object\<close> answers 403 or 404,
    \<open>generate_presigned_url\<close> signs locally; \<open>fs_write\<close> is the write of a
    staging file by the storage that prepares an upload.  This is not code of the
    repository.
  \<^item> \<open>Gateway\<close>: \<open>S3Minio\<close> as the record \<open>s3minio\<close>; \<open>s3minio_init\<close>
    (lines 45--58), \<open>upload\<close> with its loop body \<open>upload_one\<close> and its cleanup
    \<open>upload_cleanup\<close> (lines 60--96), \<open>delete\<close> (98--114), \<open>get_url\<close>
    (116--139).  Each handler maps a world to the Python result and the world after
    the call; every print, every SDK and \<open>os\<close> call, every \<open>raise ... from\<close> and
    the \<open>return\<close> inside the \<open>for\<close> loops are in the model.
  \<^item> \<open>Filename\<close>: \<open>generate_image_filename\<close> and its local
    \<open>get_valid_filename\<close> (lines 176--198): the model instance as a record of its
    class name and \<open>created_at\<close> datetime, \<open>strftime\<close> over the directives the
    format uses (\<open>%F\<close> is the ISO date, as in C's \<open>strftime\<close> which CPython
    calls), the character filter of \<open>re.sub\<close> as a predicate, and the random
    number as a parameter constrained to \<open>randint(1000, 9999)\<close>.
  \<^item> \<open>Converter\<close>: \<open>webp_converter\<close> (lines 140--174), with PIL's
    open/convert/save as a parameter \<open>codec\<close> (bytes to encoded bytes or an
    exception) and the import of Django as a boolean; the rename of
    \<open>image.name\<close> is returned as the updated argument list.
  \<^item> \<open>System\<close>: the gateway used over time.  Events are gateway calls
    (\<open>Upload\<close>, \<open>Delete\<close>, \<open>Get_Url\<close>) and the environment's events: a file
    written under \<open>temp/media/<key>\<close> (\<open>fs_write\<close> of \<open>Environment\<close>,
    \<open>open(p, "wb")\<close>), the clock advancing.  \<open>gw_exec\<close> runs one event,
    \<open>gw_run\<close> a list, \<open>gw_reach\<close> is reachability.  The specification's
    contract (\<open>spec.md\<close> 4.1) is the abstract store \<open>kv\<close> (staged files and
    bucket objects by key) with the relation \<open>kv_step\<close>; \<open>kv_abs\<close> is the
    abstraction function.
  \<^item> This theory: the interaction of \<open>generate_image_filename\<close> with the gateway.

  \<^bold>\<open>What is proved (Gateway).\<close> Functional behaviour of each handler on every
  branch: a successful upload stores exactly the staged bytes and removes the
  staging file (C1); a missing staging file raises the doubly wrapped
  \<open>ValueError\<close> with nothing changed (C2), and any failed transfer changes nothing
  (C7); later arguments of \<open>upload\<close> and \<open>delete\<close> are ignored (C3, C13); the
  handlers never return \<open>False\<close> (C14); \<open>delete\<close> removes the object, even an
  absent one, and \<open>get_url\<close> then answers \<open>None\<close> (C4); \<open>get_url\<close> returns a
  URL for a present object (C5), \<open>None\<close> for an absent one (C6) and for rejected
  credentials (C9), and raises on an unreachable endpoint (C10); failed deletes
  change nothing (C11).  The URL serves the object's bytes exactly until issue time
  plus 3600 seconds (C8).  The constructor prints the secret key (C12).

  \<^bold>\<open>What is proved (Filename).\<close> The last path segment contains only
  characters of \<open>[A-Za-z0-9._-]\<close> (C15); the key is class name, stamp, and
  stamp-random.extension (C16); the key does not depend on microseconds, because
  \<open>%F\<close> repeats the date (C17); the key splits back into the class name and a
  stamp whose fields read back as the date and time (C18).

  \<^bold>\<open>What is proved (Converter).\<close> A listed extension at the end of the name is
  replaced by \<open>.webp\<close> (C19); upper-case extensions are not renamed (C20);
  extensions are replaced wherever they occur, so a later suffix survives (C21);
  the three exception chains are the only errors (C22); only the first image is
  converted (C23).

  \<^bold>\<open>What is proved (System and across components).\<close> By rule induction on
  reachability, the backend's configuration and every other bucket are untouched
  (C24).  Refinement: from a well-formed world with a healthy backend, every run of
  the code is a run of the abstract store, reply by reply (C25); its step lemma
  \<open>gw_exec_refines\<close> rests on the exact effect of a successful upload
  (\<open>upload_one_kv\<close>) and on the lemma that \<open>shutil.rmtree\<close> of an empty
  directory removes only that directory.  Upload followed by \<open>get_url\<close> yields a
  URL serving the staged bytes for 3600 seconds (C26).  A key from
  \<open>generate_image_filename\<close> is a normal path, so a file saved under it is uploaded
  under the same key (C27).

  \<^bold>\<open>Modelling choices.\<close> Python's \<open>None\<close> result is \<open>Inr None\<close>, a raise is
  \<open>Inl\<close>; the world after a raise keeps the effects done before it.  There is no
  loop to bound: both loops return in their first iteration, which the model states
  by recursion on the first argument only.  Paths are identified by their string,
  which is exact for normalised paths (\<open>norm_path\<close>, required by \<open>fs_wf\<close>); a
  key whose staging path is not normal (\<open>a//b\<close>) is seen as missing.

  \<^bold>\<open>Not modelled.\<close> The HTTP protocol, signing algorithm and retries of boto3
  (the SDK calls are specified by their observable effect), PIL's codec (a
  parameter), Django itself (its availability is a boolean, its storage a staging
  write), and the real randomness of \<open>random.randint\<close> (a parameter in its range).
  The file system has no permissions and no concurrent writers: \<open>os.remove\<close>,
  \<open>os.listdir\<close> and \<open>shutil.rmtree\<close> do not fail on the paths the cleanup of
  \<open>upload\<close> gives them, so the cleanup's error branches (lines 87--91, raised at
  line 96 after the object is stored) are not reached, and no theorem speaks of
  them.  Years below 1000 are printed without padding by \<open>%Y\<close>, as glibc does;
  some CPython versions pad them to four digits.
\<close>

subsection \<open>Keys generated for model instances are uploadable\<close>

text \<open>A Python class name (\<open>instance.__class__.__name__\<close>) is an identifier; the
  model restricts it to ASCII letters, digits and underscores, not starting with a digit.\<close>

definition py_identifier :: "string \<Rightarrow> bool" where
  "py_identifier s \<longleftrightarrow> s \<noteq> [] \<and> \<not> ascii_digit (hd s)
     \<and> list_all (\<lambda>c. valid_filename_char c \<and> c \<noteq> CHR ''.'' \<and> c \<noteq> CHR ''-'') s"

text \<open>The demonstration world of \<open>Gateway\<close> with the directory Django's storage
  creates for a \<open>Post\<close> saved at 2024-01-02 03:04:05.\<close>

definition demo_dated_world :: world where
  "demo_dated_world = demo_world\<lparr>w_fs := w_fs demo_world @
     [(''temp/media/Post/2024-01-02-03-04-05-2024-01-02'', Directory)]\<rparr>"

lemma norm_path_join:
  assumes "segs \<noteq> []" and "\<forall>x \<in> set segs. x \<noteq> [] \<and> x \<noteq> ''.'' \<and> x \<noteq> ''..'' \<and> CHR ''/'' \<notin> set x"
  shows "norm_path (py_join ''/'' segs)"
  using assms py_split_join [of segs "CHR ''/''"] by (simp add: norm_path_def list_all_iff)

lemma digit_segment:
  "s \<noteq> [] \<Longrightarrow> ascii_digit (hd s) \<Longrightarrow> s \<noteq> ''.'' \<and> s \<noteq> ''..''"
  by (auto simp: ascii_digit_def)

lemma generated_staging_path_normal:
  assumes "py_identifier (inst_class_name instance)"
  shows "norm_path (staging_path (generate_image_filename instance r filename))"
proof -
  let ?t = "strftime (inst_created_at instance) ''%Y-%m-%d-%H-%M-%S-%F''"
  let ?v = "?t @ ''-'' @ nat_str r @ ''.''
     @ filter valid_filename_char (py_replace '' '' ''_'' (py_rstrip_ws (last (py_split CHR ''.'' filename))))"
  have key: "staging_path (generate_image_filename instance r filename)
      = py_join ''/'' [''temp'', ''media'', inst_class_name instance, ?t, ?v]"
    by (simp add: generate_image_filename_unfold staging_path_def)
  have t: "?t \<noteq> [] \<and> ascii_digit (hd ?t)" by (rule stamp_hd)
  have v: "CHR ''/'' \<notin> set ?v" using stamp_no_slash nat_str_digits ascii_digit_valid
    by (auto simp: valid_filename_char_def)
  have id: "inst_class_name instance \<noteq> []"
    "\<forall>c \<in> set (inst_class_name instance). valid_filename_char c \<and> c \<noteq> CHR ''.'' \<and> c \<noteq> CHR ''-''"
    using assms by (simp_all add: py_identifier_def list_all_iff)
  have "\<not> valid_filename_char CHR ''/''" by (simp add: valid_filename_char_def)
  then have sl: "CHR ''/'' \<notin> set (inst_class_name instance)" using id(2) by blast
  have "CHR ''.'' \<notin> set (inst_class_name instance)" using id(2) by blast
  then have "inst_class_name instance \<noteq> ''.'' \<and> inst_class_name instance \<noteq> ''..''" by auto
  then have c: "inst_class_name instance \<noteq> [] \<and> inst_class_name instance \<noteq> ''.''
      \<and> inst_class_name instance \<noteq> ''..'' \<and> CHR ''/'' \<notin> set (inst_class_name instance)"
    using id(1) sl by blast
  show ?thesis unfolding key
    by (rule norm_path_join) (use t v c stamp_no_slash digit_segment in auto)
qed

lemma demo_stamp: "strftime (inst_created_at demo_post) ''%Y-%m-%d-%H-%M-%S-%F'' = ''2024-01-02-03-04-05-2024-01-02''"
  unfolding strftime_image_format by (simp add: demo_post_def zpad_def digit_char_def nat_str.simps)

lemma demo_key: "generate_image_filename demo_post 1234 ''x.png'' =
  ''Post/2024-01-02-03-04-05-2024-01-02/2024-01-02-03-04-05-2024-01-02-1234.png''"
  unfolding generate_image_filename_unfold demo_stamp
  by (simp add: demo_post_def digit_char_def nat_str.simps py_split_def py_rstrip_ws_def py_isspace_def py_replace_def valid_filename_char_def)

text \<open>C27. A key built by \<open>generate_image_filename\<close> for a model whose class name is
  an identifier is a normal relative path, so a file saved by the storage under
  \<open>temp/media/<key>\<close> (its directory existing) is written, and \<open>upload([key])\<close> then
  returns \<open>True\<close>, stores exactly the saved bytes under the same key and removes the
  staging copy.\<close>

theorem generated_key_stage_then_upload:
  assumes cls: "py_identifier (inst_class_name instance)"
    and key: "key = generate_image_filename instance r filename"
    and wf: "fs_wf (w_fs w)" and h: "gw_healthy g w"
    and dir: "map_of (w_fs w) (posix_dirname (staging_path key)) = Some Directory"
    and free: "map_of (w_fs w) (staging_path key) \<noteq> Some Directory"
  shows "fst (gw_run g [Stage key d, Call (Upload [key])] w)
           = [Reply_Io (Inr ()), Reply_Bool (Inr (Some True))]
       \<and> object_of (w_backend (snd (gw_run g [Stage key d, Call (Upload [key])] w))) (s3_bucket_name g) key
           = Some d
       \<and> staged_of (w_fs (snd (gw_run g [Stage key d, Call (Upload [key])] w))) key = None"
proof -
  let ?p = "staging_path key"
  let ?w1 = "w\<lparr>w_fs := (?p, File d) # fs_drop ?p (w_fs w)\<rparr>"
  have np: "norm_path ?p" using generated_staging_path_normal [OF cls] key by simp
  have wr: "fs_write (w_fs w) ?p d = Inr ((?p, File d) # fs_drop ?p (w_fs w))"
    by (rule fs_write_ok [OF np dir free])
  have wf1: "fs_wf (w_fs ?w1)" using fs_write_Inr [OF wf wr] by simp
  have h1: "gw_healthy g ?w1" using h by (simp add: gw_healthy_def)
  have st1: "staged_of (w_fs ?w1) key = Some d" by (simp add: staged_of_def)
  have ok: "fst (upload_one g key ?w1) = Inr (Some True)"
    and ab: "kv_abs g (snd (upload_one g key ?w1)) =
                \<lparr>kv_staged = (staged_of (w_fs ?w1))(key := None),
                 kv_objects = (object_of (w_backend ?w1) (s3_bucket_name g))(key \<mapsto> d)\<rparr>"
    using upload_one_kv [OF wf1 h1, of key] st1 by auto
  have "object_of (w_backend (snd (upload_one g key ?w1))) (s3_bucket_name g) key = Some d"
    and "staged_of (w_fs (snd (upload_one g key ?w1))) key = None"
    using ab by (simp_all add: kv_abs_def fun_eq_iff)
  then show ?thesis using ok wr by (simp add: split_def Let_def)
qed

theorem generated_key_stage_then_upload_witness:
  "fst (gw_run demo_gateway [Stage (generate_image_filename demo_post 1234 ''x.png'') [9],
          Call (Upload [generate_image_filename demo_post 1234 ''x.png''])] demo_dated_world)
     = [Reply_Io (Inr ()), Reply_Bool (Inr (Some True))]
   \<and> object_of (w_backend (snd (gw_run demo_gateway [Stage (generate_image_filename demo_post 1234 ''x.png'') [9],
          Call (Upload [generate_image_filename demo_post 1234 ''x.png''])] demo_dated_world)))
        ''media'' (generate_image_filename demo_post 1234 ''x.png'') = Some [9]
   \<and> staged_of (w_fs (snd (gw_run demo_gateway [Stage (generate_image_filename demo_post 1234 ''x.png'') [9],
          Call (Upload [generate_image_filename demo_post 1234 ''x.png''])] demo_dated_world)))
        (generate_image_filename demo_post 1234 ''x.png'') = None"
proof -
  let ?k = "generate_image_filename demo_post 1234 ''x.png''"
  have cls: "py_identifier (inst_class_name demo_post)"
    by (simp add: py_identifier_def demo_post_def valid_filename_char_def ascii_digit_def)
  have wf: "fs_wf (w_fs demo_dated_world)"
    by (simp add: demo_dated_world_def demo_defs fs_wf_def norm_path_def py_split_def
        posix_dirname_def py_rstrip_def)
  have h: "gw_healthy demo_gateway demo_dated_world"
    using demo_healthy by (simp add: demo_dated_world_def gw_healthy_def)
  have dir: "map_of (w_fs demo_dated_world) (posix_dirname (staging_path ?k)) = Some Directory"
    by (simp add: demo_key staging_path_def demo_dated_world_def demo_defs posix_dirname_def py_rstrip_def)
  have free: "map_of (w_fs demo_dated_world) (staging_path ?k) \<noteq> Some Directory"
    by (simp add: demo_key staging_path_def demo_dated_world_def demo_defs)
  have "s3_bucket_name demo_gateway = ''media''" by (simp add: demo_gateway_def)
  then show ?thesis
    using generated_key_stage_then_upload [OF cls refl wf h dir free, of "[9]"] by simp
qed

end
